theory Spec2Isabelle
  imports Main "HOL-Library.Word"
begin

unbundle bit_operations_syntax

section \<open>LibFS: a sector-based file system (LibFS.c)\<close>

text \<open>
  The embedding follows LibFS.c function by function. C \<open>int\<close> values are modelled as
  mathematical integers (inputs on which a signed overflow would occur are outside the
  model); where the source mixes \<open>int\<close> with the \<open>size_t\<close> results of \<open>sizeof\<close>, the
  conversions of an LP64 platform (32-bit \<open>int\<close>, 64-bit \<open>size_t\<close>) are written out.
  Sector buffers are byte lists; an \<open>int\<close> stored in a buffer occupies four bytes in
  little-endian order. Undefined behaviour and failed assertions are results of their own.
\<close>

subsection \<open>Geometry and layout constants\<close>

text \<open>
  The four geometry constants come from LibDisk.h and LibFS.h, which are not part of the
  sources; they are taken as a parameter.
\<close>

record geometry =
  SECTOR_SIZE :: int
  TOTAL_SECTORS :: int
  MAX_FILES :: int
  MAX_SECTORS_PER_FILE :: int

definition SUPERBLOCK_START_SECTOR :: int where
  "SUPERBLOCK_START_SECTOR = 0"

definition INODE_BITMAP_START_SECTOR :: int where
  "INODE_BITMAP_START_SECTOR = 1"

definition INODE_BITMAP_SIZE :: "geometry \<Rightarrow> int" where
  "INODE_BITMAP_SIZE g = (MAX_FILES g + 7) div 8"

definition INODE_BITMAP_SECTORS :: "geometry \<Rightarrow> int" where
  "INODE_BITMAP_SECTORS g = (INODE_BITMAP_SIZE g + SECTOR_SIZE g - 1) div SECTOR_SIZE g"

definition SECTOR_BITMAP_START_SECTOR :: "geometry \<Rightarrow> int" where
  "SECTOR_BITMAP_START_SECTOR g = INODE_BITMAP_START_SECTOR + INODE_BITMAP_SECTORS g"

definition SECTOR_BITMAP_SIZE :: "geometry \<Rightarrow> int" where
  "SECTOR_BITMAP_SIZE g = (TOTAL_SECTORS g + 7) div 8"

definition SECTOR_BITMAP_SECTORS :: "geometry \<Rightarrow> int" where
  "SECTOR_BITMAP_SECTORS g = (SECTOR_BITMAP_SIZE g + SECTOR_SIZE g - 1) div SECTOR_SIZE g"

definition INODE_TABLE_START_SECTOR :: "geometry \<Rightarrow> int" where
  "INODE_TABLE_START_SECTOR g = SECTOR_BITMAP_START_SECTOR g + SECTOR_BITMAP_SECTORS g"

text \<open>\<open>inode_t\<close> is two ints and an array of \<open>MAX_SECTORS_PER_FILE\<close> ints.\<close>

definition sizeof_inode_t :: "geometry \<Rightarrow> int" where
  "sizeof_inode_t g = 4 * (2 + MAX_SECTORS_PER_FILE g)"

definition INODES_PER_SECTOR :: "geometry \<Rightarrow> int" where
  "INODES_PER_SECTOR g = SECTOR_SIZE g div sizeof_inode_t g"

definition INODE_TABLE_SECTORS :: "geometry \<Rightarrow> int" where
  "INODE_TABLE_SECTORS g = (MAX_FILES g + INODES_PER_SECTOR g - 1) div INODES_PER_SECTOR g"

definition DATABLOCK_START_SECTOR :: "geometry \<Rightarrow> int" where
  "DATABLOCK_START_SECTOR g = INODE_TABLE_START_SECTOR g + INODE_TABLE_SECTORS g"

definition MAX_PATH :: int where
  "MAX_PATH = 256"

definition MAX_NAME :: int where
  "MAX_NAME = 16"

definition MAX_OPEN_FILES :: int where
  "MAX_OPEN_FILES = 256"

text \<open>\<open>dirent_t\<close> is a name of \<open>MAX_NAME\<close> chars followed by an int.\<close>

definition sizeof_dirent_t :: int where
  "sizeof_dirent_t = MAX_NAME + 4"

definition DIRENTS_PER_SECTOR :: "geometry \<Rightarrow> int" where
  "DIRENTS_PER_SECTOR g = SECTOR_SIZE g div sizeof_dirent_t"

subsection \<open>C arithmetic\<close>

text \<open>Division and remainder of C truncate towards zero.\<close>

definition cdiv :: "int \<Rightarrow> int \<Rightarrow> int" where
  "cdiv a b = sgn a * sgn b * (\<bar>a\<bar> div \<bar>b\<bar>)"

definition cmod :: "int \<Rightarrow> int \<Rightarrow> int" where
  "cmod a b = a - b * cdiv a b"

text \<open>Conversion of an int to \<open>size_t\<close>, and of a \<open>size_t\<close> back to int.\<close>

definition to_size_t :: "int \<Rightarrow> int" where
  "to_size_t x = x mod 2 ^ 64"

definition to_int :: "int \<Rightarrow> int" where
  "to_int x = (let u = x mod 2 ^ 32 in if u < 2 ^ 31 then u else u - 2 ^ 32)"

subsection \<open>State: the disk, the open-file table and the error slot\<close>

type_synonym byte = "8 word"
type_synonym sector = "byte list"

datatype fs_error =
  E_GENERAL | E_CREATE | E_NO_SUCH_FILE | E_NO_SUCH_DIR | E_TOO_MANY_OPEN_FILES
  | E_BAD_FD | E_FILE_IN_USE | E_FILE_TOO_BIG | E_NO_SPACE | E_SEEK_OUT_OF_BOUNDS
  | E_DIR_NOT_EMPTY | E_ROOT_DIR | E_BUFFER_TOO_SMALL

text \<open>What a C execution can do other than return.\<close>

datatype fault = OutOfBounds | AssertFail | Uninitialised

record open_file_t =
  inode :: int
  size_f :: int
  pos :: int

record fs_state =
  disk :: "int \<Rightarrow> sector"
  open_files :: "int \<Rightarrow> open_file_t"
  osErrno :: fs_error

subsection \<open>The open-file table\<close>

function is_file_open_loop :: "(int \<Rightarrow> open_file_t) \<Rightarrow> int \<Rightarrow> int \<Rightarrow> int" where
  "is_file_open_loop tbl ino i =
     (if i < MAX_OPEN_FILES
      then (if inode (tbl i) = ino then 1 else is_file_open_loop tbl ino (i + 1))
      else 0)"
  by pat_completeness auto
termination
  by (relation "measure (\<lambda>(tbl, ino, i). nat (MAX_OPEN_FILES - i))") auto

declare is_file_open_loop.simps [simp del]

definition is_file_open :: "(int \<Rightarrow> open_file_t) \<Rightarrow> int \<Rightarrow> int" where
  "is_file_open tbl ino = is_file_open_loop tbl ino 0"

subsection \<open>Disk layer\<close>

text \<open>
  Modelled from the spec: the Disk Layer (LibDisk) is an external collaborator, a fixed
  array of \<open>TOTAL_SECTORS\<close> sectors whose read and write transfer exactly one sector and
  either succeed or fail. A transfer fails when the sector index is outside the array.
  The disk is a function from sector indices to sector contents; a sector content is a
  list of \<open>SECTOR_SIZE\<close> bytes.
\<close>

definition Disk_Read :: "geometry \<Rightarrow> (int \<Rightarrow> sector) \<Rightarrow> int \<Rightarrow> sector option" where
  "Disk_Read g d sec = (if 0 \<le> sec \<and> sec < TOTAL_SECTORS g then Some (d sec) else None)"

definition Disk_Write :: "geometry \<Rightarrow> (int \<Rightarrow> sector) \<Rightarrow> int \<Rightarrow> sector \<Rightarrow> (int \<Rightarrow> sector) option" where
  "Disk_Write g d sec buf =
     (if 0 \<le> sec \<and> sec < TOTAL_SECTORS g then Some (d(sec := buf)) else None)"

text \<open>A write whose result the caller does not test.\<close>

definition Disk_Write_unchecked :: "geometry \<Rightarrow> (int \<Rightarrow> sector) \<Rightarrow> int \<Rightarrow> sector \<Rightarrow> (int \<Rightarrow> sector)" where
  "Disk_Write_unchecked g d sec buf =
     (case Disk_Write g d sec buf of None \<Rightarrow> d | Some d' \<Rightarrow> d')"

subsection \<open>Buffers\<close>

text \<open>A four-byte little-endian int at a byte offset of a buffer.\<close>

definition int_bytes :: "int \<Rightarrow> byte list" where
  "int_bytes v =
     [word_of_int v, word_of_int (v div 256), word_of_int (v div 65536),
      word_of_int (v div 16777216)]"

definition get_int :: "sector \<Rightarrow> int \<Rightarrow> int" where
  "get_int buf off =
     to_int (uint (buf ! nat off) + 256 * uint (buf ! nat (off + 1))
       + 65536 * uint (buf ! nat (off + 2)) + 16777216 * uint (buf ! nat (off + 3)))"

definition put_bytes :: "sector \<Rightarrow> int \<Rightarrow> byte list \<Rightarrow> sector" where
  "put_bytes buf off bs = take (nat off) buf @ bs @ drop (nat off + length bs) buf"

definition put_int :: "sector \<Rightarrow> int \<Rightarrow> int \<Rightarrow> sector" where
  "put_int buf off v = put_bytes buf off (int_bytes v)"

text \<open>\<open>memset(p, 0, n)\<close> at an offset of a buffer.\<close>

definition zero_bytes :: "sector \<Rightarrow> int \<Rightarrow> int \<Rightarrow> sector" where
  "zero_bytes buf off n = put_bytes buf off (replicate (nat n) 0)"

text \<open>The bytes of a C string, up to its terminator.\<close>

definition c_str :: "byte list \<Rightarrow> byte list" where
  "c_str bs = takeWhile (\<lambda>b. b \<noteq> 0) bs"

definition str_bytes :: "string \<Rightarrow> byte list" where
  "str_bytes cs = map (\<lambda>c. of_char c) cs"

text \<open>\<open>strncpy(dst, src, n)\<close>: the string, cut at \<open>n\<close> bytes or padded with zero bytes.\<close>

definition strncpy_bytes :: "byte list \<Rightarrow> int \<Rightarrow> byte list" where
  "strncpy_bytes src n = take (nat n) (c_str src @ replicate (nat n) 0)"

subsection \<open>Fields of the on-disk records\<close>

text \<open>
  \<open>inode_t\<close>: \<open>size\<close> at offset 0, \<open>type\<close> at offset 4, \<open>data[i]\<close> at offset \<open>8 + 4 i\<close>.
  \<open>dirent_t\<close>: \<open>fname\<close> at offset 0, \<open>inode\<close> at offset \<open>MAX_NAME\<close>.
  The first argument of each accessor is the buffer, the second the byte offset of the
  record in it.
\<close>

definition inode_size :: "sector \<Rightarrow> int \<Rightarrow> int" where
  "inode_size buf p = get_int buf p"

definition inode_type :: "sector \<Rightarrow> int \<Rightarrow> int" where
  "inode_type buf p = get_int buf (p + 4)"

definition inode_data :: "sector \<Rightarrow> int \<Rightarrow> int \<Rightarrow> int" where
  "inode_data buf p i = get_int buf (p + 8 + 4 * i)"

definition dirent_fname :: "sector \<Rightarrow> int \<Rightarrow> byte list" where
  "dirent_fname buf p = take (nat MAX_NAME) (drop (nat p) buf)"

definition dirent_inode :: "sector \<Rightarrow> int \<Rightarrow> int" where
  "dirent_inode buf p = get_int buf (p + MAX_NAME)"

subsection \<open>Bitmaps\<close>

definition signum :: "int \<Rightarrow> int" where
  "signum n = (if n = 0 then 0 else if n > 0 then 1 else - 1)"

definition bits_tbl :: "byte list" where
  "bits_tbl = [0x0, 0x80, 0xC0, 0xE0, 0xF0, 0xF8, 0xFC, 0xFE]"

definition set_mask :: "byte list" where
  "set_mask = [128, 64, 32, 16, 8, 4, 2, 1]"

definition reset_mask :: "byte list" where
  "reset_mask = [127, 191, 223, 239, 247, 251, 253, 254]"

text \<open>\<open>for (i = lo; i < hi; i++) Disk_Write(i, buf);\<close>\<close>

function write_sectors :: "geometry \<Rightarrow> (int \<Rightarrow> sector) \<Rightarrow> int \<Rightarrow> int \<Rightarrow> sector \<Rightarrow> (int \<Rightarrow> sector)" where
  "write_sectors g d i hi buf =
     (if i < hi then write_sectors g (Disk_Write_unchecked g d i buf) (i + 1) hi buf else d)"
  by pat_completeness auto
termination
  by (relation "measure (\<lambda>(g, d, i, hi, buf). nat (hi - i))") auto

declare write_sectors.simps [simp del]

text \<open>
  The fill loops of \<open>bitmap_init\<close> over the buffer are written as \<open>replicate\<close>: the first
  sets every byte to \<open>0xff\<close>, the second clears the bytes after \<open>remaining_bytes\<close>, the
  third clears the bytes before it. The byte at \<open>remaining_bytes\<close> itself is assigned
  once, from the table, and is not cleared again.
\<close>

definition bitmap_init :: "geometry \<Rightarrow> int \<Rightarrow> int \<Rightarrow> int \<Rightarrow> (int \<Rightarrow> sector) \<Rightarrow> fault + (int \<Rightarrow> sector)" where
  "bitmap_init g start num nbits d =
     (let sectors_set_to_one = cdiv (cdiv nbits 8) (SECTOR_SIZE g);
          remaining_bytes = cmod (cdiv nbits 8) (SECTOR_SIZE g);
          sectors_set_to_zero = num - sectors_set_to_one - signum remaining_bytes;
          ones = replicate (nat (SECTOR_SIZE g)) (0xff :: byte);
          d1 = write_sectors g d start (start + sectors_set_to_one) ones;
          remaining = cmod nbits 8
      in if remaining < 0 \<or> remaining_bytes < 0 \<or> SECTOR_SIZE g \<le> remaining_bytes
         then Inl OutOfBounds
         else
           let partial = replicate (nat remaining_bytes) (0xff :: byte)
                 @ [bits_tbl ! nat remaining]
                 @ replicate (nat (SECTOR_SIZE g - remaining_bytes - 1)) 0;
               d2 = Disk_Write_unchecked g d1 (start + sectors_set_to_one) partial;
               zeros = replicate (nat remaining_bytes) (0 :: byte)
                 @ [bits_tbl ! nat remaining]
                 @ replicate (nat (SECTOR_SIZE g - remaining_bytes - 1)) 0;
               end_of_sector = start + sectors_set_to_one + 1 + sectors_set_to_zero
           in Inr (write_sectors g d2 (start + sectors_set_to_one + 1) end_of_sector zeros))"

definition isBitSet :: "byte \<Rightarrow> int \<Rightarrow> int" where
  "isBitSet c n = (if c AND set_mask ! nat n \<noteq> 0 then 1 else 0)"

definition setBit :: "byte \<Rightarrow> int \<Rightarrow> byte" where
  "setBit c n = c OR set_mask ! nat n"

text \<open>
  The scan of \<open>bitmap_first_unused\<close>. \<open>scan_bits\<close> is the loop over the bits of one byte,
  \<open>scan_bytes\<close> the loop over the bytes of a sector; both carry \<open>location\<close> and stop at
  the first clear bit.
\<close>

datatype scan = Found int int int | NotFound int

function scan_bits :: "sector \<Rightarrow> int \<Rightarrow> int \<Rightarrow> int \<Rightarrow> int \<Rightarrow> scan" where
  "scan_bits buf a_byte bitn nbit location =
     (if bitn < nbit
      then (if isBitSet (buf ! nat a_byte) bitn = 0 then Found a_byte bitn (location + 1)
            else scan_bits buf a_byte (bitn + 1) nbit (location + 1))
      else NotFound location)"
  by pat_completeness auto
termination
  by (relation "measure (\<lambda>(buf, a_byte, bitn, nbit, location). nat (nbit - bitn))") auto

declare scan_bits.simps [simp del]

function scan_bytes :: "sector \<Rightarrow> int \<Rightarrow> int \<Rightarrow> int \<Rightarrow> scan" where
  "scan_bytes buf a_byte limit location =
     (if a_byte < limit
      then (case scan_bits buf a_byte 0 8 location of
              Found b k l \<Rightarrow> Found b k l
            | NotFound l \<Rightarrow> scan_bytes buf (a_byte + 1) limit l)
      else NotFound location)"
  by pat_completeness auto
termination
  by (relation "measure (\<lambda>(buf, a_byte, limit, location). nat (limit - a_byte))") auto

declare scan_bytes.simps [simp del]

text \<open>One sector of the scan: the whole bytes, then the bits of the incomplete byte.\<close>

definition scan_sector :: "sector \<Rightarrow> int \<Rightarrow> int \<Rightarrow> int \<Rightarrow> int \<Rightarrow> scan" where
  "scan_sector buf last_block limit remaining_bits location =
     (case scan_bytes buf 0 limit location of
        Found b k l \<Rightarrow> Found b k l
      | NotFound l \<Rightarrow>
          if last_block = 1 then scan_bits buf (max 0 limit) 0 remaining_bits l
          else NotFound l)"

function bitmap_first_unused_loop ::
  "geometry \<Rightarrow> int \<Rightarrow> int \<Rightarrow> int \<Rightarrow> int \<Rightarrow> int \<Rightarrow> fs_state \<Rightarrow> int \<times> fs_state" where
  "bitmap_first_unused_loop g i hi bytes_set_to_one remaining_bits location s =
     (if i < hi then
        let last_block = (if bytes_set_to_one < SECTOR_SIZE g then 1 else 0) in
        (case Disk_Read g (disk s) i of
           None \<Rightarrow> (- 1, s\<lparr>osErrno := E_GENERAL\<rparr>)
         | Some bitmap_buf \<Rightarrow>
             let limit = (if last_block = 1 then bytes_set_to_one else SECTOR_SIZE g) in
             (case scan_sector bitmap_buf last_block limit remaining_bits location of
                Found a_byte bitn l \<Rightarrow>
                  (case Disk_Write g (disk s) i
                          (bitmap_buf[nat a_byte := setBit (bitmap_buf ! nat a_byte) bitn]) of
                     None \<Rightarrow> (- 1, s\<lparr>osErrno := E_GENERAL\<rparr>)
                   | Some d' \<Rightarrow> (l, s\<lparr>disk := d'\<rparr>))
              | NotFound l \<Rightarrow>
                  bitmap_first_unused_loop g (i + 1) hi bytes_set_to_one remaining_bits l s))
      else (- 1, s))"
  by pat_completeness auto
termination
  by (relation "measure (\<lambda>(g, i, hi, b, r, l, s). nat (hi - i))") auto

declare bitmap_first_unused_loop.simps [simp del]

definition bitmap_first_unused :: "geometry \<Rightarrow> int \<Rightarrow> int \<Rightarrow> int \<Rightarrow> fs_state \<Rightarrow> int \<times> fs_state" where
  "bitmap_first_unused g start num nbits s =
     bitmap_first_unused_loop g start (start + num) (cdiv nbits 8) (cmod nbits 8) (- 1) s"

text \<open>
  The loop \<open>while (number_bytes > SECTOR_SIZE) number_bytes -= SECTOR_SIZE\<close>. The source
  declares \<open>char bitmap_buf[SECTOR_SIZE]\<close>, so \<open>SECTOR_SIZE\<close> is positive; the guard
  \<open>0 < ss\<close> makes the function total for the other values of the parameter.
\<close>

function reduce_bytes :: "int \<Rightarrow> int \<Rightarrow> int" where
  "reduce_bytes ss number_bytes =
     (if 0 < ss \<and> ss < number_bytes then reduce_bytes ss (number_bytes - ss) else number_bytes)"
  by pat_completeness auto
termination
  by (relation "measure (\<lambda>(ss, number_bytes). nat number_bytes)") auto

declare reduce_bytes.simps [simp del]

definition bitmap_reset :: "geometry \<Rightarrow> int \<Rightarrow> int \<Rightarrow> int \<Rightarrow> fs_state \<Rightarrow> fault + (int \<times> fs_state)" where
  "bitmap_reset g start num ibit s =
     (let number_bytes = cdiv ibit 8;
          remaining_bits = cmod ibit 8
      in if number_bytes > SECTOR_SIZE g * num then Inr (- 1, s)
         else
           let number_bytes = reduce_bytes (SECTOR_SIZE g) number_bytes in
           (case Disk_Read g (disk s) start of
              None \<Rightarrow> Inr (- 1, s\<lparr>osErrno := E_GENERAL\<rparr>)
            | Some bitmap_buf \<Rightarrow>
                if number_bytes < 0 \<or> SECTOR_SIZE g \<le> number_bytes \<or> remaining_bits < 0
                then Inl OutOfBounds
                else
                  (case Disk_Write g (disk s) start
                          (bitmap_buf[nat number_bytes :=
                             bitmap_buf ! nat number_bytes AND reset_mask ! nat remaining_bits]) of
                     None \<Rightarrow> Inr (- 1, s\<lparr>osErrno := E_GENERAL\<rparr>)
                   | Some d' \<Rightarrow> Inr (0, s\<lparr>disk := d'\<rparr>))))"

subsection \<open>Locating an inode in the inode table\<close>

text \<open>
  \<open>INODES_PER_SECTOR\<close> and \<open>DIRENTS_PER_SECTOR\<close> are \<open>size_t\<close> values, so an int that
  meets them in an expression is converted to \<open>size_t\<close> and the result converted back on
  assignment. The embedding is for geometries with at least one inode and one dirent per
  sector; a division by zero is otherwise undefined in C.
\<close>

text \<open>\<open>INODE_TABLE_START_SECTOR + inode / INODES_PER_SECTOR\<close>, assigned to an int.\<close>

definition inode_sector_of :: "geometry \<Rightarrow> int \<Rightarrow> int" where
  "inode_sector_of g ino =
     to_int (to_size_t (to_size_t (INODE_TABLE_START_SECTOR g)
       + to_size_t ino div INODES_PER_SECTOR g))"

text \<open>
  \<open>inode_start_entry = (inode_sector - INODE_TABLE_START_SECTOR) * INODES_PER_SECTOR\<close>,
  \<open>offset = inode - inode_start_entry\<close>, the assertion on \<open>offset\<close>, and the byte offset
  \<open>offset * sizeof(inode_t)\<close> of the record in the sector buffer.
\<close>

definition inode_ptr :: "geometry \<Rightarrow> int \<Rightarrow> int \<Rightarrow> fault + int" where
  "inode_ptr g inode_sector ino =
     (let inode_start_entry =
            to_int (to_size_t (to_size_t (inode_sector - INODE_TABLE_START_SECTOR g)
              * INODES_PER_SECTOR g));
          offset = ino - inode_start_entry
      in if 0 \<le> offset \<and> to_size_t offset < INODES_PER_SECTOR g
         then Inr (offset * sizeof_inode_t g)
         else Inl AssertFail)"

subsection \<open>Path resolution\<close>

definition legal_char :: "char \<Rightarrow> bool" where
  "legal_char c =
     (let n = (of_char c :: nat)
      in (65 \<le> n \<and> n \<le> 90) \<or> (97 \<le> n \<and> n \<le> 122) \<or> (48 \<le> n \<and> n \<le> 57)
         \<or> c = CHR ''-'' \<or> c = CHR ''_'' \<or> c = CHR ''.'')"

definition illegal_filename :: "string \<Rightarrow> int" where
  "illegal_filename name =
     (if int (length name) > MAX_NAME - 1 then 1
      else if list_ex (\<lambda>c. \<not> legal_char c) name then 1
      else 0)"

text \<open>The loop over the dirents of one sector: the index \<open>i\<close> runs while \<open>i \<le> nentries\<close>.\<close>

function scan_dirents :: "geometry \<Rightarrow> sector \<Rightarrow> string \<Rightarrow> int \<Rightarrow> int \<Rightarrow> int option" where
  "scan_dirents g buf fname nentries i =
     (if i < DIRENTS_PER_SECTOR g
      then (if i > nentries then None
            else if c_str (dirent_fname buf (i * sizeof_dirent_t)) = str_bytes fname
            then Some (dirent_inode buf (i * sizeof_dirent_t))
            else scan_dirents g buf fname nentries (i + 1))
      else None)"
  by pat_completeness auto
termination
  by (relation "measure (\<lambda>(g, buf, fname, nentries, i). nat (DIRENTS_PER_SECTOR g - i))") auto

declare scan_dirents.simps [simp del]

text \<open>
  The loop over the data sectors of the parent. The result is the \<open>-2\<close> of a failed
  read, the inode field of the matching dirent, or nothing.
\<close>

datatype lookup = Read_Error | Hit int | Miss

function find_child_loop ::
  "geometry \<Rightarrow> (int \<Rightarrow> sector) \<Rightarrow> sector \<Rightarrow> int \<Rightarrow> string \<Rightarrow> int \<Rightarrow> int \<Rightarrow> fault + lookup" where
  "find_child_loop g d cached_inode_buffer parent fname nentries idx =
     (if nentries > 0 then
        (if idx < 0 \<or> MAX_SECTORS_PER_FILE g \<le> idx then Inl OutOfBounds
         else
           (case Disk_Read g d (inode_data cached_inode_buffer parent idx) of
              None \<Rightarrow> Inr Read_Error
            | Some buf \<Rightarrow>
                (case scan_dirents g buf fname nentries 0 of
                   Some child_inode \<Rightarrow> Inr (Hit child_inode)
                 | None \<Rightarrow>
                     find_child_loop g d cached_inode_buffer parent fname
                       (nentries - DIRENTS_PER_SECTOR g) (idx + 1))))
      else Inr Miss)"
  by pat_completeness auto
termination
  by (relation "measure (\<lambda>(g, d, cb, parent, fname, nentries, idx).
        nat (MAX_SECTORS_PER_FILE g - idx))") auto

declare find_child_loop.simps [simp del]

text \<open>The result, with the inode cache (sector number and buffer) as it is left.\<close>

definition find_child_inode ::
  "geometry \<Rightarrow> (int \<Rightarrow> sector) \<Rightarrow> int \<Rightarrow> string \<Rightarrow> int \<Rightarrow> sector \<Rightarrow> fault + (int \<times> int \<times> sector)" where
  "find_child_inode g d parent_inode fname cached_inode_sector cached_inode_buffer =
     (case inode_ptr g cached_inode_sector parent_inode of
        Inl e \<Rightarrow> Inl e
      | Inr parent \<Rightarrow>
          if inode_type cached_inode_buffer parent \<noteq> 1
          then Inr (- 2, cached_inode_sector, cached_inode_buffer)
          else
            (case find_child_loop g d cached_inode_buffer parent fname
                    (inode_size cached_inode_buffer parent) 0 of
               Inl e \<Rightarrow> Inl e
             | Inr Read_Error \<Rightarrow> Inr (- 2, cached_inode_sector, cached_inode_buffer)
             | Inr Miss \<Rightarrow> Inr (- 1, cached_inode_sector, cached_inode_buffer)
             | Inr (Hit child_inode) \<Rightarrow>
                 let sector = inode_sector_of g child_inode in
                 if sector \<noteq> cached_inode_sector
                 then (case Disk_Read g d sector of
                         None \<Rightarrow> Inr (- 2, sector, cached_inode_buffer)
                       | Some buf \<Rightarrow> Inr (child_inode, sector, buf))
                 else Inr (child_inode, cached_inode_sector, cached_inode_buffer)))"

text \<open>
  \<open>strsep(&lpath, "/")\<close>: the token before the first separator and the rest of the
  string after it, which is NULL when there is no separator.
\<close>

definition strsep :: "string \<Rightarrow> string \<times> string option" where
  "strsep p =
     (takeWhile (\<lambda>c. c \<noteq> CHR ''/'') p,
      case dropWhile (\<lambda>c. c \<noteq> CHR ''/'') p of [] \<Rightarrow> None | c # r \<Rightarrow> Some r)"

text \<open>
  The token loop of \<open>follow_path\<close>. It ends with \<open>return -1\<close> (\<open>Abort\<close>) or runs out of
  tokens (\<open>Walked\<close>, with \<open>parent_inode\<close> and \<open>child_inode\<close>); both carry what was
  copied to \<open>last_fname\<close>, if anything.
\<close>

datatype walk = Abort "string option" | Walked int int "string option"

function follow_path_loop ::
  "geometry \<Rightarrow> (int \<Rightarrow> sector) \<Rightarrow> string option \<Rightarrow> int \<Rightarrow> int \<Rightarrow> int \<Rightarrow> sector \<Rightarrow> string option
     \<Rightarrow> fault + walk" where
  "follow_path_loop g d lpath parent_inode child_inode cached_sector cached_buffer last_fname =
     (case lpath of
        None \<Rightarrow> Inr (Walked parent_inode child_inode last_fname)
      | Some p \<Rightarrow>
          if fst (strsep p) = [] then
            follow_path_loop g d (snd (strsep p)) parent_inode child_inode
              cached_sector cached_buffer last_fname
          else if illegal_filename (fst (strsep p)) \<noteq> 0 then Inr (Abort last_fname)
          else if child_inode < 0 then Inr (Abort last_fname)
          else
            (case find_child_inode g d child_inode (fst (strsep p)) cached_sector cached_buffer of
               Inl e \<Rightarrow> Inl e
             | Inr (c, cs, cb) \<Rightarrow>
                 follow_path_loop g d (snd (strsep p)) child_inode c cs cb
                   (Some (fst (strsep p)))))"
  by pat_completeness auto
termination
proof (relation "measure (\<lambda>(g, d, lpath, rest).
          case lpath of None \<Rightarrow> 0 | Some p \<Rightarrow> Suc (length p))")
  show "wf (measure (\<lambda>(g, d, lpath, rest).
          case lpath of None \<Rightarrow> 0 | Some p \<Rightarrow> Suc (length p)))"
    by simp
next
  fix g :: geometry and d :: "int \<Rightarrow> sector" and lpath :: "string option"
    and parent_inode child_inode cached_sector :: int and cached_buffer :: sector
    and last_fname :: "string option" and p :: string
  have "length r < length p" if "dropWhile (\<lambda>c. c \<noteq> CHR ''/'') p = c # r" for c r
  proof -
    have "length (dropWhile (\<lambda>c. c \<noteq> CHR ''/'') p) \<le> length p"
      by (rule length_dropWhile_le)
    with that show ?thesis by simp
  qed
  then show "((g, d, snd (strsep p), parent_inode, child_inode, cached_sector, cached_buffer,
                last_fname),
              (g, d, lpath, parent_inode, child_inode, cached_sector, cached_buffer, last_fname))
             \<in> measure (\<lambda>(g, d, lpath, rest).
                  case lpath of None \<Rightarrow> 0 | Some p \<Rightarrow> Suc (length p))"
    if "lpath = Some p"
    using that by (auto simp: strsep_def split: list.splits)
  then show "((g, d, snd (strsep p), child_inode, c, cs, cb, Some (fst (strsep p))),
              (g, d, lpath, parent_inode, child_inode, cached_sector, cached_buffer, last_fname))
             \<in> measure (\<lambda>(g, d, lpath, rest).
                  case lpath of None \<Rightarrow> 0 | Some p \<Rightarrow> Suc (length p))"
    if "lpath = Some p" for c cs cb
    using that by simp
qed

declare follow_path_loop.simps [simp del]

text \<open>
  \<open>follow_path\<close> returns the parent inode, and writes the child inode and the last name
  through its reference parameters; a parameter that was not written is \<open>None\<close>. The
  path is a C string that is not NULL.
\<close>

definition follow_path ::
  "geometry \<Rightarrow> (int \<Rightarrow> sector) \<Rightarrow> string \<Rightarrow> fault + (int \<times> int option \<times> string option)" where
  "follow_path g d path =
     (if path = [] \<or> hd path \<noteq> CHR ''/'' then Inr (- 1, None, None)
      else
        let pathstore = take (nat (MAX_PATH - 1)) (tl path);
            cached_sector = INODE_TABLE_START_SECTOR g
        in (case Disk_Read g d cached_sector of
              None \<Rightarrow> Inr (- 1, None, None)
            | Some cached_buffer \<Rightarrow>
                (case follow_path_loop g d (Some pathstore) (- 1) 0
                        cached_sector cached_buffer None of
                   Inl e \<Rightarrow> Inl e
                 | Inr (Abort last_fname) \<Rightarrow> Inr (- 1, None, last_fname)
                 | Inr (Walked parent_inode child_inode last_fname) \<Rightarrow>
                     if child_inode < - 1 then Inr (- 1, None, last_fname)
                     else Inr (if parent_inode = - 1 \<and> child_inode = 0 then 0 else parent_inode,
                               Some child_inode, last_fname))))"

subsection \<open>Adding an inode\<close>

text \<open>
  The dirent sector of \<open>add_inode\<close>: a fresh sector, installed in \<open>parent->data[group]\<close>
  of the inode buffer, when the last group is full, and the sector of the group
  otherwise. \<open>Inl\<close> is \<open>return -1\<close>.
\<close>

definition dirent_sector ::
  "geometry \<Rightarrow> sector \<Rightarrow> int \<Rightarrow> int \<Rightarrow> fs_state \<Rightarrow> fs_state + (sector \<times> sector \<times> fs_state)" where
  "dirent_sector g inode_buffer parent grp s =
     (if to_size_t (to_size_t grp * DIRENTS_PER_SECTOR g)
           = to_size_t (inode_size inode_buffer parent)
      then
        (case bitmap_first_unused g (SECTOR_BITMAP_START_SECTOR g) (SECTOR_BITMAP_SECTORS g)
                (SECTOR_BITMAP_SIZE g) s of
           (newsec, s') \<Rightarrow>
             if newsec < 0 then Inl s'
             else Inr (put_int inode_buffer (parent + 8 + 4 * grp) newsec,
                       replicate (nat (SECTOR_SIZE g)) 0, s'))
      else
        (case Disk_Read g (disk s) (inode_data inode_buffer parent grp) of
           None \<Rightarrow> Inl s
         | Some dirent_buffer \<Rightarrow> Inr (inode_buffer, dirent_buffer, s)))"

text \<open>The second half of \<open>add_inode\<close>, from the read of the parent's inode sector.\<close>

definition add_dirent :: "geometry \<Rightarrow> int \<Rightarrow> string \<Rightarrow> int \<Rightarrow> fs_state \<Rightarrow> fault + (int \<times> fs_state)" where
  "add_dirent g parent_inode file child_inode s =
     (let inode_sector = inode_sector_of g parent_inode in
      case Disk_Read g (disk s) inode_sector of
        None \<Rightarrow> Inr (- 1, s)
      | Some inode_buffer \<Rightarrow>
          (case inode_ptr g inode_sector parent_inode of
             Inl e \<Rightarrow> Inl e
           | Inr parent \<Rightarrow>
               if inode_type inode_buffer parent \<noteq> 1 then Inr (- 2, s)
               else
                 let psize = inode_size inode_buffer parent;
                     grp = to_int (to_size_t psize div DIRENTS_PER_SECTOR g)
                 in if grp < 0 \<or> MAX_SECTORS_PER_FILE g \<le> grp then Inl OutOfBounds
                    else
                      (case dirent_sector g inode_buffer parent grp s of
                         Inl s1 \<Rightarrow> Inr (- 1, s1)
                       | Inr (inode_buffer, dirent_buffer, s1) \<Rightarrow>
                           let start_entry =
                                 to_int (to_size_t (to_size_t grp * DIRENTS_PER_SECTOR g));
                               offset = psize - start_entry;
                               dirent = offset * sizeof_dirent_t;
                               dirent_buffer =
                                 put_int
                                   (put_bytes dirent_buffer dirent
                                      (strncpy_bytes (str_bytes file) MAX_NAME))
                                   (dirent + MAX_NAME) child_inode
                           in (case Disk_Write g (disk s1) (inode_data inode_buffer parent grp)
                                       dirent_buffer of
                                 None \<Rightarrow> Inr (- 1, s1)
                               | Some d2 \<Rightarrow>
                                   (case Disk_Write g d2 inode_sector
                                           (put_int inode_buffer parent (psize + 1)) of
                                      None \<Rightarrow> Inr (- 1, s1\<lparr>disk := d2\<rparr>)
                                    | Some d3 \<Rightarrow> Inr (0, s1\<lparr>disk := d3\<rparr>))))))"

definition add_inode :: "geometry \<Rightarrow> int \<Rightarrow> int \<Rightarrow> string \<Rightarrow> fs_state \<Rightarrow> fault + (int \<times> fs_state)" where
  "add_inode g type parent_inode file s =
     (case bitmap_first_unused g INODE_BITMAP_START_SECTOR (INODE_BITMAP_SECTORS g)
             (INODE_BITMAP_SIZE g) s of
        (child_inode, s1) \<Rightarrow>
          if child_inode < 0 then Inr (- 1, s1)
          else
            let inode_sector = inode_sector_of g child_inode in
            (case Disk_Read g (disk s1) inode_sector of
               None \<Rightarrow> Inr (- 1, s1)
             | Some inode_buffer \<Rightarrow>
                 (case inode_ptr g inode_sector child_inode of
                    Inl e \<Rightarrow> Inl e
                  | Inr child \<Rightarrow>
                      (case Disk_Write g (disk s1) inode_sector
                              (put_int (zero_bytes inode_buffer child (sizeof_inode_t g))
                                 (child + 4) type) of
                         None \<Rightarrow> Inr (- 1, s1)
                       | Some d2 \<Rightarrow>
                           add_dirent g parent_inode file child_inode (s1\<lparr>disk := d2\<rparr>)))))"

definition create_file_or_directory :: "geometry \<Rightarrow> int \<Rightarrow> string \<Rightarrow> fs_state \<Rightarrow> fault + (int \<times> fs_state)" where
  "create_file_or_directory g type pathname s =
     (case follow_path g (disk s) pathname of
        Inl e \<Rightarrow> Inl e
      | Inr (parent_inode, child, last_fname) \<Rightarrow>
          if parent_inode \<ge> 0 then
            (case child of
               None \<Rightarrow> Inl Uninitialised
             | Some child_inode \<Rightarrow>
                 if child_inode \<ge> 0 then Inr (- 1, s\<lparr>osErrno := E_CREATE\<rparr>)
                 else
                   (case last_fname of
                      None \<Rightarrow> Inl Uninitialised
                    | Some name \<Rightarrow>
                        (case add_inode g type parent_inode name s of
                           Inl e \<Rightarrow> Inl e
                         | Inr (r, s') \<Rightarrow>
                             if r \<ge> 0 then Inr (0, s')
                             else Inr (- 1, s'\<lparr>osErrno := E_CREATE\<rparr>))))
          else Inr (- 1, s\<lparr>osErrno := E_CREATE\<rparr>))"

definition File_Create :: "geometry \<Rightarrow> string \<Rightarrow> fs_state \<Rightarrow> fault + (int \<times> fs_state)" where
  "File_Create g file s = create_file_or_directory g 0 file s"

definition Dir_Create :: "geometry \<Rightarrow> string \<Rightarrow> fs_state \<Rightarrow> fault + (int \<times> fs_state)" where
  "Dir_Create g path s = create_file_or_directory g 1 path s"

subsection \<open>Removing an inode\<close>

text \<open>The loop that resets the sector bit of every positive entry of the child's \<open>data\<close>.\<close>

function reclaim_sectors :: "geometry \<Rightarrow> sector \<Rightarrow> int \<Rightarrow> int \<Rightarrow> fs_state \<Rightarrow> fault + fs_state" where
  "reclaim_sectors g inode_buffer child i s =
     (if i < MAX_SECTORS_PER_FILE g then
        (if inode_data inode_buffer child i > 0 then
           (case bitmap_reset g (SECTOR_BITMAP_START_SECTOR g) (SECTOR_BITMAP_SECTORS g)
                   (inode_data inode_buffer child i) s of
              Inl e \<Rightarrow> Inl e
            | Inr (r, s') \<Rightarrow> reclaim_sectors g inode_buffer child (i + 1) s')
         else reclaim_sectors g inode_buffer child (i + 1) s)
      else Inr s)"
  by pat_completeness auto
termination
  by (relation "measure (\<lambda>(g, inode_buffer, child, i, s). nat (MAX_SECTORS_PER_FILE g - i))") auto

declare reclaim_sectors.simps [simp del]

text \<open>The loop over the dirents of one group: the first entry whose inode field matches.\<close>

function find_entry :: "geometry \<Rightarrow> sector \<Rightarrow> int \<Rightarrow> int \<Rightarrow> int option" where
  "find_entry g dirent_buffer child_inode entry =
     (if entry < DIRENTS_PER_SECTOR g
      then (if dirent_inode dirent_buffer (entry * sizeof_dirent_t) = child_inode
            then Some entry
            else find_entry g dirent_buffer child_inode (entry + 1))
      else None)"
  by pat_completeness auto
termination
  by (relation "measure (\<lambda>(g, buf, c, entry). nat (DIRENTS_PER_SECTOR g - entry))") auto

declare find_entry.simps [simp del]

text \<open>
  The loop over the groups of the parent. At the matching entry the name and inode of
  the last dirent are copied over it; the last dirent is then cleared in
  \<open>last_dirent_buffer\<close>, a local buffer that is not written to the disk, and the sector of
  the group and the sector of the parent inode are written. The result is the disk and
  whether the loop ended with \<open>return -1\<close>.
\<close>

function swap_loop ::
  "geometry \<Rightarrow> sector \<Rightarrow> int \<Rightarrow> int \<Rightarrow> sector \<Rightarrow> int \<Rightarrow> int \<Rightarrow> int \<Rightarrow> (int \<Rightarrow> sector)
     \<Rightarrow> fault + (bool \<times> (int \<Rightarrow> sector))" where
  "swap_loop g inode_buffer parent inode_sector last_dirent_buffer offset child_inode grp d =
     (if grp < MAX_SECTORS_PER_FILE g then
        (if grp < 0 then Inl OutOfBounds
         else
           (case Disk_Read g d (inode_data inode_buffer parent grp) of
              None \<Rightarrow> Inr (False, d)
            | Some dirent_buffer \<Rightarrow>
                (case find_entry g dirent_buffer child_inode 0 of
                   None \<Rightarrow>
                     swap_loop g inode_buffer parent inode_sector last_dirent_buffer offset
                       child_inode (grp + 1) d
                 | Some entry \<Rightarrow>
                     if offset < 0 then Inl OutOfBounds
                     else
                       let last_dirent = offset * sizeof_dirent_t;
                           current_dirent = entry * sizeof_dirent_t;
                           dirent_buffer =
                             put_int
                               (put_bytes dirent_buffer current_dirent
                                  (strncpy_bytes (dirent_fname last_dirent_buffer last_dirent)
                                     MAX_NAME))
                               (current_dirent + MAX_NAME)
                               (dirent_inode last_dirent_buffer last_dirent)
                       in (case Disk_Write g d (inode_data inode_buffer parent grp)
                                   dirent_buffer of
                             None \<Rightarrow> Inr (False, d)
                           | Some d1 \<Rightarrow>
                               (case Disk_Write g d1 inode_sector inode_buffer of
                                  None \<Rightarrow> Inr (False, d1)
                                | Some d2 \<Rightarrow> Inr (True, d2))))))
      else Inr (True, d))"
  by pat_completeness auto
termination
  by (relation "measure (\<lambda>(g, ib, parent, isec, lb, offset, c, grp, d).
        nat (MAX_SECTORS_PER_FILE g - grp))") auto

declare swap_loop.simps [simp del]

text \<open>The part of \<open>remove_inode\<close> that runs when the parent has more than one entry.\<close>

definition swap_with_last ::
  "geometry \<Rightarrow> sector \<Rightarrow> int \<Rightarrow> int \<Rightarrow> int \<Rightarrow> (int \<Rightarrow> sector) \<Rightarrow> fault + (bool \<times> (int \<Rightarrow> sector))" where
  "swap_with_last g inode_buffer parent inode_sector child_inode d =
     (let psize = inode_size inode_buffer parent;
          last_group = to_int (to_size_t psize div DIRENTS_PER_SECTOR g)
      in if last_group < 0 \<or> MAX_SECTORS_PER_FILE g \<le> last_group then Inl OutOfBounds
         else
           (case Disk_Read g d (inode_data inode_buffer parent last_group) of
              None \<Rightarrow> Inr (False, d)
            | Some last_dirent_buffer \<Rightarrow>
                let start_entry = to_int (to_size_t (to_size_t last_group * DIRENTS_PER_SECTOR g));
                    offset = psize - start_entry - 1
                in swap_loop g inode_buffer parent inode_sector last_dirent_buffer offset
                     child_inode 0 d))"

text \<open>The second half of \<open>remove_inode\<close>, from the read of the parent's inode sector.\<close>

definition remove_dirent :: "geometry \<Rightarrow> int \<Rightarrow> int \<Rightarrow> fs_state \<Rightarrow> fault + (int \<times> fs_state)" where
  "remove_dirent g parent_inode child_inode s =
     (let inode_sector = inode_sector_of g parent_inode in
      case Disk_Read g (disk s) inode_sector of
        None \<Rightarrow> Inr (- 1, s)
      | Some inode_buffer \<Rightarrow>
          (case inode_ptr g inode_sector parent_inode of
             Inl e \<Rightarrow> Inl e
           | Inr parent \<Rightarrow>
               if inode_type inode_buffer parent \<noteq> 1 then Inr (- 2, s)
               else
                 (case (if inode_size inode_buffer parent > 1
                        then swap_with_last g inode_buffer parent inode_sector child_inode (disk s)
                        else Inr (True, disk s)) of
                    Inl e \<Rightarrow> Inl e
                  | Inr (ok, d1) \<Rightarrow>
                      if \<not> ok then Inr (- 1, s\<lparr>disk := d1\<rparr>)
                      else
                        (case Disk_Write g d1 inode_sector
                                (put_int inode_buffer parent (inode_size inode_buffer parent - 1)) of
                           None \<Rightarrow> Inr (- 1, s\<lparr>disk := d1\<rparr>)
                         | Some d2 \<Rightarrow> Inr (0, s\<lparr>disk := d2\<rparr>)))))"

definition remove_inode :: "geometry \<Rightarrow> int \<Rightarrow> int \<Rightarrow> int \<Rightarrow> fs_state \<Rightarrow> fault + (int \<times> fs_state)" where
  "remove_inode g type parent_inode child_inode s =
     (let inode_sector = inode_sector_of g child_inode in
      case Disk_Read g (disk s) inode_sector of
        None \<Rightarrow> Inr (- 1, s)
      | Some inode_buffer \<Rightarrow>
          (case inode_ptr g inode_sector child_inode of
             Inl e \<Rightarrow> Inl e
           | Inr child \<Rightarrow>
               if inode_type inode_buffer child \<noteq> type then Inr (- 3, s)
               else if inode_type inode_buffer child = 1 \<and> inode_size inode_buffer child > 0
               then Inr (- 2, s)
               else
                 (case (if inode_type inode_buffer child = 0
                        then reclaim_sectors g inode_buffer child 0 s else Inr s) of
                    Inl e \<Rightarrow> Inl e
                  | Inr s1 \<Rightarrow>
                      (case Disk_Write g (disk s1) inode_sector
                              (zero_bytes inode_buffer child (sizeof_inode_t g)) of
                         None \<Rightarrow> Inr (- 1, s1)
                       | Some d2 \<Rightarrow>
                           (case bitmap_reset g INODE_BITMAP_START_SECTOR (INODE_BITMAP_SECTORS g)
                                   child_inode (s1\<lparr>disk := d2\<rparr>) of
                              Inl e \<Rightarrow> Inl e
                            | Inr (r, s3) \<Rightarrow> remove_dirent g parent_inode child_inode s3)))))"

subsection \<open>File operations\<close>

function new_file_fd_loop :: "(int \<Rightarrow> open_file_t) \<Rightarrow> int \<Rightarrow> int" where
  "new_file_fd_loop tbl i =
     (if i < MAX_OPEN_FILES
      then (if inode (tbl i) \<le> 0 then i else new_file_fd_loop tbl (i + 1))
      else - 1)"
  by pat_completeness auto
termination
  by (relation "measure (\<lambda>(tbl, i). nat (MAX_OPEN_FILES - i))") auto

declare new_file_fd_loop.simps [simp del]

definition new_file_fd :: "(int \<Rightarrow> open_file_t) \<Rightarrow> int" where
  "new_file_fd tbl = new_file_fd_loop tbl 0"

definition File_Unlink :: "geometry \<Rightarrow> string \<Rightarrow> fs_state \<Rightarrow> fault + (int \<times> fs_state)" where
  "File_Unlink g file s =
     (case follow_path g (disk s) file of
        Inl e \<Rightarrow> Inl e
      | Inr (parent_inode, child, last_fname) \<Rightarrow>
          if parent_inode \<ge> 0 then
            (case child of
               None \<Rightarrow> Inl Uninitialised
             | Some child_inode \<Rightarrow>
                 if child_inode \<ge> 0 then
                   (if is_file_open (open_files s) child_inode = 1
                    then Inr (- 1, s\<lparr>osErrno := E_FILE_IN_USE\<rparr>)
                    else
                      (case remove_inode g 0 parent_inode child_inode s of
                         Inl e \<Rightarrow> Inl e
                       | Inr (result, s') \<Rightarrow>
                           if result = 0 then Inr (0, s')
                           else if result = - 1 then Inr (- 1, s'\<lparr>osErrno := E_GENERAL\<rparr>)
                           else if result = - 2 then Inr (- 1, s'\<lparr>osErrno := E_DIR_NOT_EMPTY\<rparr>)
                           else if result = - 3 then Inr (- 1, s'\<lparr>osErrno := E_GENERAL\<rparr>)
                           else Inr (- 1, s')))
                 else Inr (- 1, s\<lparr>osErrno := E_NO_SUCH_FILE\<rparr>))
          else Inr (- 1, s\<lparr>osErrno := E_NO_SUCH_FILE\<rparr>))"

definition File_Open :: "geometry \<Rightarrow> string \<Rightarrow> fs_state \<Rightarrow> fault + (int \<times> fs_state)" where
  "File_Open g file s =
     (let fd = new_file_fd (open_files s) in
      if fd < 0 then Inr (- 1, s\<lparr>osErrno := E_TOO_MANY_OPEN_FILES\<rparr>)
      else
        (case follow_path g (disk s) file of
           Inl e \<Rightarrow> Inl e
         | Inr (parent_inode, child, last_fname) \<Rightarrow>
             (case child of
                None \<Rightarrow> Inl Uninitialised
              | Some child_inode \<Rightarrow>
                  if child_inode \<ge> 0 then
                    let inode_sector = inode_sector_of g child_inode in
                    (case Disk_Read g (disk s) inode_sector of
                       None \<Rightarrow> Inr (- 1, s\<lparr>osErrno := E_GENERAL\<rparr>)
                     | Some inode_buffer \<Rightarrow>
                         (case inode_ptr g inode_sector child_inode of
                            Inl e \<Rightarrow> Inl e
                          | Inr child \<Rightarrow>
                              if inode_type inode_buffer child \<noteq> 0
                              then Inr (- 1, s\<lparr>osErrno := E_GENERAL\<rparr>)
                              else Inr (fd, s\<lparr>open_files := (open_files s)
                                     (fd := \<lparr>inode = child_inode,
                                             size_f = inode_size inode_buffer child,
                                             pos = 0\<rparr>)\<rparr>)))
                  else Inr (- 1, s\<lparr>osErrno := E_NO_SUCH_FILE\<rparr>))))"

text \<open>
  \<open>File_Read\<close>. The result is the return value, the bytes copied to the start of the
  caller's buffer, and the state. The body of the \<open>while\<close> loop ends with
  \<open>return out_pos\<close>, so it runs at most once. \<open>stack_buf\<close> stands for the indeterminate
  contents of the local \<open>data_buf\<close>, which stay in it when the unchecked \<open>Disk_Read\<close>
  fails.
\<close>

definition File_Read ::
  "geometry \<Rightarrow> sector \<Rightarrow> int \<Rightarrow> int \<Rightarrow> fs_state \<Rightarrow> fault + (int \<times> byte list \<times> fs_state)" where
  "File_Read g stack_buf fd size_arg s =
     (if is_file_open (open_files s) fd = 0 then Inr (- 1, [], s\<lparr>osErrno := E_BAD_FD\<rparr>)
      else if fd < 0 \<or> MAX_OPEN_FILES \<le> fd then Inl OutOfBounds
      else
        let f = open_files s fd in
        if pos f = size_f f then Inr (0, [], s)
        else
          let inode_sector = inode_sector_of g (inode f) in
          (case Disk_Read g (disk s) inode_sector of
             None \<Rightarrow> Inr (- 1, [], s\<lparr>osErrno := E_GENERAL\<rparr>)
           | Some inode_buffer \<Rightarrow>
               (case inode_ptr g inode_sector (inode f) of
                  Inl e \<Rightarrow> Inl e
                | Inr child \<Rightarrow>
                    let left = size_arg;
                        current_position_in_sector = cmod (pos f) (SECTOR_SIZE g);
                        current_sector = cdiv (pos f) (SECTOR_SIZE g)
                    in if left > 0 \<and> pos f < size_f f then
                         (if current_sector < 0 \<or> MAX_SECTORS_PER_FILE g \<le> current_sector
                          then Inl OutOfBounds
                          else
                            let data_buf =
                                  (case Disk_Read g (disk s)
                                          (inode_data inode_buffer child current_sector) of
                                     None \<Rightarrow> stack_buf | Some b \<Rightarrow> b);
                                to_read =
                                  (if left > SECTOR_SIZE g
                                   then SECTOR_SIZE g - current_position_in_sector
                                   else left - current_position_in_sector)
                            in if to_read < 0 \<or> current_position_in_sector < 0
                               then Inl OutOfBounds
                               else
                                 let new_pos = pos f + to_read in
                                 Inr (to_read,
                                      take (nat to_read)
                                        (drop (nat current_position_in_sector) data_buf),
                                      s\<lparr>open_files := (open_files s)
                                        (fd := f\<lparr>pos := (if new_pos > size_f f then size_f f
                                                          else new_pos)\<rparr>)\<rparr>))
                       else Inr (- 1, [], s))))"

text \<open>The allocation loop of \<open>File_Write\<close>; \<open>Inl\<close> is the exhausted bitmap.\<close>

function alloc_sectors ::
  "geometry \<Rightarrow> sector \<Rightarrow> int \<Rightarrow> int \<Rightarrow> int \<Rightarrow> fs_state \<Rightarrow> fault + (fs_state + (sector \<times> fs_state))" where
  "alloc_sectors g inode_buffer child i hi s =
     (if i < hi then
        (case bitmap_first_unused g (SECTOR_BITMAP_START_SECTOR g) (SECTOR_BITMAP_SECTORS g)
                (SECTOR_BITMAP_SIZE g) s of
           (next_sec, s') \<Rightarrow>
             if next_sec < 0 then Inr (Inl s')
             else if i < 0 \<or> MAX_SECTORS_PER_FILE g \<le> i then Inl OutOfBounds
             else alloc_sectors g (put_int inode_buffer (child + 8 + 4 * i) next_sec)
                    child (i + 1) hi s')
      else Inr (Inr (inode_buffer, s)))"
  by pat_completeness auto
termination
  by (relation "measure (\<lambda>(g, inode_buffer, child, i, hi, s). nat (hi - i))") auto

declare alloc_sectors.simps [simp del]

text \<open>
  The copy loop of \<open>File_Write\<close>. It carries \<open>left\<close>, the position in the sector, the
  sector index, \<open>in_pos\<close>, the position of the open file and the disk, and returns
  \<open>left\<close>, the position and the disk.
\<close>

function write_loop ::
  "geometry \<Rightarrow> sector \<Rightarrow> int \<Rightarrow> byte list \<Rightarrow> int \<Rightarrow> int \<Rightarrow> int \<Rightarrow> int \<Rightarrow> int \<Rightarrow> int
     \<Rightarrow> (int \<Rightarrow> sector) \<Rightarrow> fault + (int \<times> int \<times> (int \<Rightarrow> sector))" where
  "write_loop g inode_buffer child buffer allocated_sectors left current_position_in_sector
       current_sector in_pos fpos d =
     (if left > 0 \<and> current_sector < allocated_sectors then
        (if current_sector < 0 \<or> MAX_SECTORS_PER_FILE g \<le> current_sector then Inl OutOfBounds
         else
           let to_write =
                 (if left > SECTOR_SIZE g then SECTOR_SIZE g - current_position_in_sector
                  else left - current_position_in_sector)
           in if to_write < 0 \<or> current_position_in_sector < 0
                 \<or> int (length buffer) < in_pos + to_write
              then Inl OutOfBounds
              else
                let data_sector = inode_data inode_buffer child current_sector;
                    d' = (case Disk_Read g d data_sector of
                            None \<Rightarrow> d
                          | Some data_buf \<Rightarrow>
                              Disk_Write_unchecked g d data_sector
                                (put_bytes data_buf current_position_in_sector
                                   (take (nat to_write) (drop (nat in_pos) buffer))))
                in write_loop g inode_buffer child buffer allocated_sectors (left - to_write) 0
                     (current_sector + 1) (in_pos + to_write) (fpos + to_write) d')
      else Inr (left, fpos, d))"
  by pat_completeness auto
termination
  by (relation "measure (\<lambda>(g, ib, child, buffer, allocated_sectors, left, cps, current_sector,
        in_pos, fpos, d). nat (allocated_sectors - current_sector))") auto

declare write_loop.simps [simp del]

definition File_Write ::
  "geometry \<Rightarrow> int \<Rightarrow> byte list \<Rightarrow> int \<Rightarrow> fs_state \<Rightarrow> fault + (int \<times> fs_state)" where
  "File_Write g fd buffer size_arg s =
     (if is_file_open (open_files s) fd = 0 then Inr (- 1, s\<lparr>osErrno := E_BAD_FD\<rparr>)
      else if fd < 0 \<or> MAX_OPEN_FILES \<le> fd then Inl OutOfBounds
      else
        let f = open_files s fd in
        if pos f + size_arg > MAX_SECTORS_PER_FILE g * SECTOR_SIZE g
        then Inr (- 1, s\<lparr>osErrno := E_FILE_TOO_BIG\<rparr>)
        else
          let inode_sector = inode_sector_of g (inode f) in
          (case Disk_Read g (disk s) inode_sector of
             None \<Rightarrow> Inr (- 1, s\<lparr>osErrno := E_GENERAL\<rparr>)
           | Some inode_buffer \<Rightarrow>
               (case inode_ptr g inode_sector (inode f) of
                  Inl e \<Rightarrow> Inl e
                | Inr child \<Rightarrow>
                    let allocated_sectors = cdiv (size_f f + SECTOR_SIZE g - 1) (SECTOR_SIZE g);
                        needed_sectors =
                          cdiv (size_arg - (allocated_sectors * SECTOR_SIZE g - pos f)
                                  + SECTOR_SIZE g - 1) (SECTOR_SIZE g)
                    in (case alloc_sectors g inode_buffer child allocated_sectors
                                (allocated_sectors + needed_sectors) s of
                          Inl e \<Rightarrow> Inl e
                        | Inr (Inl s1) \<Rightarrow> Inr (- 1, s1\<lparr>osErrno := E_NO_SPACE\<rparr>)
                        | Inr (Inr (inode_buffer, s1)) \<Rightarrow>
                            let d2 = Disk_Write_unchecked g (disk s1) inode_sector inode_buffer;
                                allocated_sectors = allocated_sectors + needed_sectors
                            in (case write_loop g inode_buffer child buffer allocated_sectors
                                        size_arg (cmod (pos f) (SECTOR_SIZE g))
                                        (cdiv (pos f) (SECTOR_SIZE g)) 0 (pos f) d2 of
                                  Inl e \<Rightarrow> Inl e
                                | Inr (left, fpos, d3) \<Rightarrow>
                                    Inr (size_arg - left,
                                         s1\<lparr>disk := d3,
                                            open_files := (open_files s1)
                                              (fd := f\<lparr>size_f := pos f + size_arg,
                                                       pos := fpos\<rparr>)\<rparr>))))))"

definition File_Seek :: "int \<Rightarrow> int \<Rightarrow> fs_state \<Rightarrow> fault + (int \<times> fs_state)" where
  "File_Seek fd offset s =
     (if fd < 0 \<or> MAX_OPEN_FILES \<le> fd then Inl OutOfBounds
      else
        let f = open_files s fd in
        if is_file_open (open_files s) (inode f) = 0
        then Inr (- 1, s\<lparr>osErrno := E_BAD_FD\<rparr>)
        else if size_f f < offset \<or> size_f f < 0
        then Inr (- 1, s\<lparr>osErrno := E_SEEK_OUT_OF_BOUNDS\<rparr>)
        else Inr (offset, s\<lparr>open_files := (open_files s)(fd := f\<lparr>pos := offset\<rparr>)\<rparr>))"

definition File_Close :: "int \<Rightarrow> fs_state \<Rightarrow> fault + (int \<times> fs_state)" where
  "File_Close fd s =
     (if 0 > fd \<or> fd > MAX_OPEN_FILES then Inr (- 1, s\<lparr>osErrno := E_BAD_FD\<rparr>)
      else if fd = MAX_OPEN_FILES then Inl OutOfBounds
      else if inode (open_files s fd) \<le> 0 then Inr (- 1, s\<lparr>osErrno := E_BAD_FD\<rparr>)
      else Inr (0, s\<lparr>open_files := (open_files s)(fd := (open_files s fd)\<lparr>inode := 0\<rparr>)\<rparr>))"

subsection \<open>Directory operations\<close>

definition Dir_Unlink :: "geometry \<Rightarrow> string \<Rightarrow> fs_state \<Rightarrow> fault + (int \<times> fs_state)" where
  "Dir_Unlink g path s =
     (case follow_path g (disk s) path of
        Inl e \<Rightarrow> Inl e
      | Inr (parent_inode, child, path_name) \<Rightarrow>
          if path = ''/'' then Inr (- 1, s\<lparr>osErrno := E_ROOT_DIR\<rparr>)
          else if parent_inode < 0 then Inr (- 1, s\<lparr>osErrno := E_NO_SUCH_DIR\<rparr>)
          else
            (case child of
               None \<Rightarrow> Inl Uninitialised
             | Some child_inode \<Rightarrow>
                 (case remove_inode g 1 parent_inode child_inode s of
                    Inl e \<Rightarrow> Inl e
                  | Inr (r, s') \<Rightarrow>
                      if r < 0 then Inr (- 1, s'\<lparr>osErrno := E_DIR_NOT_EMPTY\<rparr>)
                      else Inr (0, s'))))"

subsection \<open>Boot\<close>

definition OS_MAGIC :: int where
  "OS_MAGIC = 0xdeadbeef"

text \<open>
  Modelled from the spec: what the Disk Layer and the host give \<open>FS_Boot\<close>, namely
  whether \<open>Disk_Init\<close> succeeds and the disk it leaves, the outcome of \<open>Disk_Load\<close>
  (the loaded image, a file that cannot be opened, or another failure), whether
  \<open>Disk_Save\<close> succeeds, and the length of the backing file.
\<close>

datatype load_result = Loaded "int \<Rightarrow> sector" | Cannot_Open | Load_Error

record host =
  init_ok :: bool
  init_disk :: "int \<Rightarrow> sector"
  load :: load_result
  save_ok :: bool
  file_length :: int

text \<open>The loop that formats the inode table; the result is \<open>False\<close> after a failed write.\<close>

function format_inode_table :: "geometry \<Rightarrow> int \<Rightarrow> (int \<Rightarrow> sector) \<Rightarrow> bool \<times> (int \<Rightarrow> sector)" where
  "format_inode_table g i d =
     (if i < INODE_TABLE_SECTORS g then
        let zero = replicate (nat (SECTOR_SIZE g)) (0 :: byte);
            buf = (if i = 0 then put_int (put_int zero 0 0) 4 1 else zero)
        in (case Disk_Write g d (INODE_TABLE_START_SECTOR g + i) buf of
              None \<Rightarrow> (False, d)
            | Some d' \<Rightarrow> format_inode_table g (i + 1) d')
      else (True, d))"
  by pat_completeness auto
termination
  by (relation "measure (\<lambda>(g, i, d). nat (INODE_TABLE_SECTORS g - i))") auto

declare format_inode_table.simps [simp del]

text \<open>The formatting steps of \<open>FS_Boot\<close>, up to the save of the image.\<close>

definition format_disk :: "geometry \<Rightarrow> (int \<Rightarrow> sector) \<Rightarrow> fault + (bool \<times> (int \<Rightarrow> sector))" where
  "format_disk g d =
     (case Disk_Write g d SUPERBLOCK_START_SECTOR
             (put_int (replicate (nat (SECTOR_SIZE g)) 0) 0 OS_MAGIC) of
        None \<Rightarrow> Inr (False, d)
      | Some d1 \<Rightarrow>
          (case bitmap_init g INODE_BITMAP_START_SECTOR (INODE_BITMAP_SECTORS g) 1 d1 of
             Inl e \<Rightarrow> Inl e
           | Inr d2 \<Rightarrow>
               (case bitmap_init g (SECTOR_BITMAP_START_SECTOR g) (SECTOR_BITMAP_SECTORS g)
                       (DATABLOCK_START_SECTOR g) d2 of
                  Inl e \<Rightarrow> Inl e
                | Inr d3 \<Rightarrow> Inr (format_inode_table g 0 d3))))"

definition check_magic :: "geometry \<Rightarrow> (int \<Rightarrow> sector) \<Rightarrow> int" where
  "check_magic g d =
     (case Disk_Read g d SUPERBLOCK_START_SECTOR of
        None \<Rightarrow> 0
      | Some buf \<Rightarrow> if get_int buf 0 = to_int OS_MAGIC then 1 else 0)"

definition no_open_files :: "int \<Rightarrow> open_file_t" where
  "no_open_files = (\<lambda>i. \<lparr>inode = 0, size_f = 0, pos = 0\<rparr>)"

definition FS_Boot :: "geometry \<Rightarrow> host \<Rightarrow> fs_state \<Rightarrow> fault + (int \<times> fs_state)" where
  "FS_Boot g h s =
     (if \<not> init_ok h then Inr (- 1, s\<lparr>osErrno := E_GENERAL\<rparr>)
      else
        (case load h of
           Cannot_Open \<Rightarrow>
             (case format_disk g (init_disk h) of
                Inl e \<Rightarrow> Inl e
              | Inr (ok, d) \<Rightarrow>
                  if \<not> ok then Inr (- 1, s\<lparr>disk := d, osErrno := E_GENERAL\<rparr>)
                  else if \<not> save_ok h then Inr (- 1, s\<lparr>disk := d, osErrno := E_GENERAL\<rparr>)
                  else Inr (0, s\<lparr>disk := d, open_files := no_open_files\<rparr>))
         | Load_Error \<Rightarrow> Inr (- 1, s\<lparr>disk := init_disk h, osErrno := E_GENERAL\<rparr>)
         | Loaded d \<Rightarrow>
             if file_length h \<noteq> SECTOR_SIZE g * TOTAL_SECTORS g
             then Inr (- 1, s\<lparr>disk := d, osErrno := E_GENERAL\<rparr>)
             else if check_magic g d = 1
             then Inr (0, s\<lparr>disk := d, open_files := no_open_files\<rparr>)
             else Inr (- 1, s\<lparr>disk := d, osErrno := E_GENERAL\<rparr>)))"

subsection \<open>A concrete geometry and concrete images\<close>

text \<open>
  The concrete evaluations use 512-byte sectors, 10000 sectors, 1000 inodes and 30
  sectors per file. An inode then takes 128 bytes and a dirent 20; the inode bitmap is
  sector 1, the sector bitmap sectors 2 to 4, the inode table sectors 5 to 254, and the
  data blocks start at sector 255.
\<close>

definition geom :: geometry where
  "geom = \<lparr>SECTOR_SIZE = 512, TOTAL_SECTORS = 10000, MAX_FILES = 1000,
            MAX_SECTORS_PER_FILE = 30\<rparr>"

text \<open>The 20 bytes of a dirent and the 128 bytes of an inode whose \<open>data[1..]\<close> are 0.\<close>

definition dirent_bytes :: "string \<Rightarrow> int \<Rightarrow> byte list" where
  "dirent_bytes name ino = strncpy_bytes (str_bytes name) MAX_NAME @ int_bytes ino"

definition inode_bytes :: "int \<Rightarrow> int \<Rightarrow> int \<Rightarrow> byte list" where
  "inode_bytes sz ty d0 = int_bytes sz @ int_bytes ty @ int_bytes d0 @ replicate 116 0"

text \<open>
  The image that the formatting steps of \<open>FS_Boot\<close> leave on the disk \<open>d\<close>
  (see \<open>format_disk_geom\<close>).
\<close>

definition fresh_image :: "(int \<Rightarrow> sector) \<Rightarrow> (int \<Rightarrow> sector)" where
  "fresh_image d =
     (\<lambda>k. if 5 \<le> k \<and> k < 255
          then (if k = 5 then inode_bytes 0 1 0 @ replicate 384 0 else replicate 512 0)
          else if k = 0 then [0xef, 0xbe, 0xad, 0xde] @ replicate 508 0
          else if k = 1 then 0x80 # replicate 511 0
          else if k = 2 then replicate 31 0xff @ [0xfe] @ replicate 480 0
          else if k = 3 \<or> k = 4 then replicate 31 0 @ [0xfe] @ replicate 480 0
          else d k)"

text \<open>
  The image after the file \<open>/a\<close> was created in the root of a fresh image, and the
  image after \<open>/hello.txt\<close> was (see \<open>File_Create_a\<close> and \<open>File_Create_hello\<close>):
  the file is inode 1, and sector 255 was allocated for the dirents of the root.
\<close>

definition image_a :: "(int \<Rightarrow> sector) \<Rightarrow> (int \<Rightarrow> sector)" where
  "image_a d =
     (fresh_image d)
       (1 := 0xc0 # replicate 511 0,
        2 := replicate 32 0xff @ replicate 480 0,
        255 := dirent_bytes ''a'' 1 @ replicate 492 0,
        5 := inode_bytes 1 1 255 @ replicate 384 0)"

definition image_h :: "(int \<Rightarrow> sector) \<Rightarrow> (int \<Rightarrow> sector)" where
  "image_h d =
     (fresh_image d)
       (1 := 0xc0 # replicate 511 0,
        2 := replicate 32 0xff @ replicate 480 0,
        255 := dirent_bytes ''hello.txt'' 1 @ replicate 492 0,
        5 := inode_bytes 1 1 255 @ replicate 384 0)"

text \<open>
  The image after two files, \<open>/a\<close> (inode 1) and \<open>/b\<close> (inode 2), were created in the
  root of a fresh image (see \<open>File_Create_b\<close>): sector 255 was allocated for the dirents
  of the root.
\<close>

definition image_ab :: "(int \<Rightarrow> sector) \<Rightarrow> (int \<Rightarrow> sector)" where
  "image_ab d =
     (fresh_image d)
       (1 := 0xe0 # replicate 511 0,
        2 := replicate 32 0xff @ replicate 480 0,
        5 := inode_bytes 2 1 255 @ replicate 384 0,
        255 := dirent_bytes ''a'' 1 @ dirent_bytes ''b'' 2 @ replicate 472 0)"

text \<open>
  The image after \<open>/b\<close> was removed from \<open>image_ab\<close> by \<open>remove_inode\<close>
  (see \<open>remove_inode_image_ab_b\<close>): the root has size 1 and slot 1 of its dirent sector
  still holds the dirent of \<open>b\<close>. \<open>image_a_clean\<close> is the same image with slot 1
  zeroed.
\<close>

definition image_a_stale :: "(int \<Rightarrow> sector) \<Rightarrow> (int \<Rightarrow> sector)" where
  "image_a_stale d =
     (image_ab d)
       (1 := 0xc0 # replicate 511 0,
        255 := dirent_bytes ''a'' 1 @ dirent_bytes ''b'' 2 @ replicate 472 0,
        5 := inode_bytes 1 1 255 @ replicate 384 0)"

definition image_a_clean :: "(int \<Rightarrow> sector) \<Rightarrow> (int \<Rightarrow> sector)" where
  "image_a_clean d = (image_a_stale d)(255 := dirent_bytes ''a'' 1 @ replicate 492 0)"

text \<open>
  The image after \<open>/hello.txt\<close> (inode 1) was created in the root of a fresh image and
  the five bytes \<open>HELLO\<close> were written to it: sector 255 holds the dirents of the root,
  sector 256 the data of the file. \<open>File_Write\<close> writes the inode sector before it sets
  \<open>child->size\<close>, so the size on the disk is still 0; the size 5 is in the open-file
  table (see \<open>File_Write_hello\<close>).
\<close>

definition image_hello :: "(int \<Rightarrow> sector) \<Rightarrow> (int \<Rightarrow> sector)" where
  "image_hello d =
     (fresh_image d)
       (1 := 0xc0 # replicate 511 0,
        2 := replicate 32 0xff @ [0x80] @ replicate 479 0,
        5 := inode_bytes 1 1 255 @ inode_bytes 0 0 256 @ replicate 256 0,
        255 := dirent_bytes ''hello.txt'' 1 @ replicate 492 0,
        256 := str_bytes ''HELLO'' @ replicate 507 0)"

section \<open>Properties\<close>

subsection \<open>The open-file table\<close>

lemma is_file_open_loop_iff:
  "0 \<le> i \<Longrightarrow>
   is_file_open_loop tbl ino i = (if \<exists>j. i \<le> j \<and> j < MAX_OPEN_FILES \<and> inode (tbl j) = ino then 1 else 0)"
proof (induction tbl ino i rule: is_file_open_loop.induct)
  case (1 tbl ino i)
  show ?case
  proof (cases "i < MAX_OPEN_FILES")
    case False
    then show ?thesis
      by (subst is_file_open_loop.simps) auto
  next
    case True
    show ?thesis
    proof (cases "inode (tbl i) = ino")
      case hit: True
      with True show ?thesis
        by (subst is_file_open_loop.simps) auto
    next
      case miss: False
      have step: "is_file_open_loop tbl ino i = is_file_open_loop tbl ino (i + 1)"
        using True miss by (subst is_file_open_loop.simps) simp
      have ih: "is_file_open_loop tbl ino (i + 1) =
          (if \<exists>j. i + 1 \<le> j \<and> j < MAX_OPEN_FILES \<and> inode (tbl j) = ino then 1 else 0)"
        using "1.IH" [OF True miss] "1.prems" by simp
      have "(\<exists>j. i + 1 \<le> j \<and> j < MAX_OPEN_FILES \<and> inode (tbl j) = ino) =
            (\<exists>j. i \<le> j \<and> j < MAX_OPEN_FILES \<and> inode (tbl j) = ino)"
      proof
        assume "\<exists>j. i + 1 \<le> j \<and> j < MAX_OPEN_FILES \<and> inode (tbl j) = ino"
        then obtain j where "i + 1 \<le> j" "j < MAX_OPEN_FILES" "inode (tbl j) = ino" by blast
        then have "i \<le> j \<and> j < MAX_OPEN_FILES \<and> inode (tbl j) = ino" by simp
        then show "\<exists>j. i \<le> j \<and> j < MAX_OPEN_FILES \<and> inode (tbl j) = ino" ..
      next
        assume "\<exists>j. i \<le> j \<and> j < MAX_OPEN_FILES \<and> inode (tbl j) = ino"
        then obtain j where j: "i \<le> j" "j < MAX_OPEN_FILES" "inode (tbl j) = ino" by blast
        with miss have "j \<noteq> i" by auto
        with j have "i + 1 \<le> j \<and> j < MAX_OPEN_FILES \<and> inode (tbl j) = ino" by simp
        then show "\<exists>j. i + 1 \<le> j \<and> j < MAX_OPEN_FILES \<and> inode (tbl j) = ino" ..
      qed
      with step ih show ?thesis by simp
    qed
  qed
qed

lemma is_file_open_iff:
  "is_file_open tbl ino = (if \<exists>j. 0 \<le> j \<and> j < MAX_OPEN_FILES \<and> inode (tbl j) = ino then 1 else 0)"
  unfolding is_file_open_def by (rule is_file_open_loop_iff) simp

lemma is_file_open_self:
  "0 \<le> fd \<Longrightarrow> fd < MAX_OPEN_FILES \<Longrightarrow> is_file_open tbl (inode (tbl fd)) = 1"
  by (auto simp: is_file_open_iff)

subsection \<open>File\_Seek\<close>

text \<open>
  C2. The claim: for an open descriptor with cached size \<open>size\<close>, File\_Seek succeeds if
  and only if \<open>0 \<le> offset \<le> size\<close>, and otherwise fails with SEEK\_OUT\_OF\_BOUNDS and
  leaves \<open>pos\<close> unchanged. The source tests \<open>f->size < offset || f->size < 0\<close>: a negative
  offset is not rejected. With descriptor 0 open on inode 1 with size 5 and position 0,
  seeking to \<open>-1\<close> stores \<open>-1\<close> as the position and returns it, and the error slot is
  not written.
\<close>

theorem File_Seek_negative_offset:
  "File_Seek 0 (- 1)
     (s\<lparr>open_files := (open_files s)(0 := \<lparr>inode = 1, size_f = 5, pos = 0\<rparr>)\<rparr>) =
   Inr (- 1,
     s\<lparr>open_files := (open_files s)(0 := \<lparr>inode = 1, size_f = 5, pos = - 1\<rparr>)\<rparr>)"
proof -
  let ?tbl = "(open_files s)(0 := \<lparr>inode = 1, size_f = 5, pos = 0\<rparr>)"
  have "is_file_open ?tbl (inode (?tbl 0)) = 1"
    by (rule is_file_open_self) (simp_all add: MAX_OPEN_FILES_def)
  then have "is_file_open ?tbl 1 = 1" by simp
  then show ?thesis
    by (simp add: File_Seek_def Let_def MAX_OPEN_FILES_def)
qed

text \<open>What \<open>File_Seek\<close> does on a descriptor in the range of the table.\<close>

lemma File_Seek_accepts:
  "0 \<le> fd \<Longrightarrow> fd < MAX_OPEN_FILES \<Longrightarrow> 0 \<le> size_f (open_files s fd) \<Longrightarrow>
   offset \<le> size_f (open_files s fd) \<Longrightarrow>
   File_Seek fd offset s =
     Inr (offset, s\<lparr>open_files := (open_files s)(fd := (open_files s fd)\<lparr>pos := offset\<rparr>)\<rparr>)"
  by (simp add: File_Seek_def Let_def is_file_open_self)

lemma File_Seek_rejects:
  "0 \<le> fd \<Longrightarrow> fd < MAX_OPEN_FILES \<Longrightarrow> size_f (open_files s fd) < offset \<Longrightarrow>
   File_Seek fd offset s = Inr (- 1, s\<lparr>osErrno := E_SEEK_OUT_OF_BOUNDS\<rparr>)"
  by (simp add: File_Seek_def Let_def is_file_open_self)

subsection \<open>Evaluation on the concrete geometry\<close>

lemma layout_geom:
  "SECTOR_SIZE geom = 512" "TOTAL_SECTORS geom = 10000" "MAX_SECTORS_PER_FILE geom = 30"
  "INODE_BITMAP_SECTORS geom = 1" "INODE_BITMAP_SIZE geom = 125"
  "SECTOR_BITMAP_START_SECTOR geom = 2" "SECTOR_BITMAP_SECTORS geom = 3"
  "SECTOR_BITMAP_SIZE geom = 1250" "INODE_TABLE_START_SECTOR geom = 5"
  "INODE_TABLE_SECTORS geom = 250" "INODES_PER_SECTOR geom = 4" "sizeof_inode_t geom = 128"
  "DATABLOCK_START_SECTOR geom = 255" "DIRENTS_PER_SECTOR geom = 25"
  by (simp_all add: geom_def INODE_BITMAP_START_SECTOR_def INODE_BITMAP_SIZE_def
      INODE_BITMAP_SECTORS_def SECTOR_BITMAP_START_SECTOR_def SECTOR_BITMAP_SIZE_def
      SECTOR_BITMAP_SECTORS_def INODE_TABLE_START_SECTOR_def sizeof_inode_t_def
      INODES_PER_SECTOR_def INODE_TABLE_SECTORS_def DATABLOCK_START_SECTOR_def
      sizeof_dirent_t_def DIRENTS_PER_SECTOR_def MAX_NAME_def)

lemmas c_arith = cdiv_def cmod_def to_int_def to_size_t_def signum_def

lemmas buf_defs = get_int_def put_int_def put_bytes_def int_bytes_def zero_bytes_def c_str_def
  str_bytes_def strncpy_bytes_def inode_size_def inode_type_def inode_data_def dirent_fname_def
  dirent_inode_def dirent_bytes_def inode_bytes_def MAX_NAME_def sizeof_dirent_t_def nth_append

lemmas disk_defs = Disk_Read_def Disk_Write_def Disk_Write_unchecked_def

lemmas bitmap_defs = bitmap_first_unused_def bitmap_first_unused_loop.simps scan_sector_def
  scan_bytes.simps scan_bits.simps isBitSet_def setBit_def set_mask_def reset_mask_def
  bitmap_reset_def reduce_bytes.simps

text \<open>
  A normal form for sector contents: the bytes up to the last one that differs from the
  fill byte of the tail are listed, the tail is one \<open>replicate\<close>.
\<close>

lemma rep_tail: "x # replicate (numeral k) x = replicate (Suc (numeral k)) x"
  by (rule replicate_Suc [symmetric])

lemma rep_same: "replicate m x @ replicate n x = replicate (m + n) x"
  by (simp add: replicate_add)

lemma rep_same_app: "replicate m x @ replicate n x @ ys = replicate (m + n) x @ ys"
  by (simp add: replicate_add)

lemma rep_cons:
  "replicate (numeral k) x @ (y # ys) = x # (replicate (pred_numeral k) x @ (y # ys))"
  by (simp add: numeral_eq_Suc)

lemma rep_other:
  "x \<noteq> y \<Longrightarrow> replicate (numeral k) x @ replicate (numeral n) y
     = x # (replicate (pred_numeral k) x @ replicate (numeral n) y)"
  by (simp add: numeral_eq_Suc)

lemma rep_other_app:
  "x \<noteq> y \<Longrightarrow> replicate (numeral k) x @ replicate (numeral n) y @ ys
     = x # (replicate (pred_numeral k) x @ replicate (numeral n) y @ ys)"
  by (simp add: numeral_eq_Suc)

lemmas rep_norm = rep_tail rep_same rep_same_app rep_cons rep_other rep_other_app

subsection \<open>Formatting\<close>

lemma format_inode_table_eq:
  "0 \<le> INODE_TABLE_START_SECTOR g + i \<Longrightarrow>
   INODE_TABLE_START_SECTOR g + INODE_TABLE_SECTORS g \<le> TOTAL_SECTORS g \<Longrightarrow>
   format_inode_table g i d =
     (True, \<lambda>k. if INODE_TABLE_START_SECTOR g + i \<le> k
                    \<and> k < INODE_TABLE_START_SECTOR g + INODE_TABLE_SECTORS g
                 then (if k = INODE_TABLE_START_SECTOR g
                       then put_int (put_int (replicate (nat (SECTOR_SIZE g)) 0) 0 0) 4 1
                       else replicate (nat (SECTOR_SIZE g)) 0)
                 else d k)"
proof (induction g i d rule: format_inode_table.induct)
  case (1 g i d)
  let ?its = "INODE_TABLE_START_SECTOR g"
  let ?zero = "replicate (nat (SECTOR_SIZE g)) (0::byte)"
  let ?root = "put_int (put_int ?zero 0 0) 4 1"
  let ?buf = "if i = 0 then ?root else ?zero"
  let ?B = "\<lambda>k. if k = ?its then ?root else ?zero"
  show ?case
  proof (cases "i < INODE_TABLE_SECTORS g")
    case False
    then show ?thesis
      by (subst format_inode_table.simps) (auto simp: fun_eq_iff)
  next
    case True
    let ?d' = "d(?its + i := ?buf)"
    have w: "Disk_Write g d (?its + i) ?buf = Some ?d'"
      using True "1.prems" by (simp add: Disk_Write_def)
    have "format_inode_table g (i + 1) ?d' =
      (True, \<lambda>k. if ?its + (i + 1) \<le> k \<and> k < ?its + INODE_TABLE_SECTORS g
                 then ?B k else ?d' k)"
      using "1.prems" by (intro "1.IH" [OF True refl refl w]) simp_all
    moreover have "(\<lambda>k. if ?its + (i + 1) \<le> k \<and> k < ?its + INODE_TABLE_SECTORS g
                 then ?B k else ?d' k) =
       (\<lambda>k. if ?its + i \<le> k \<and> k < ?its + INODE_TABLE_SECTORS g then ?B k else d k)"
      using True by (auto simp: fun_eq_iff)
    moreover have "format_inode_table g i d = format_inode_table g (i + 1) ?d'"
      using True w by (subst format_inode_table.simps) (simp add: Let_def)
    ultimately show ?thesis by simp
  qed
qed

text \<open>
  For every geometry, the initialisation of a bitmap of \<open>num\<close> sectors with one bit set
  writes the sector after the bitmap.
\<close>

lemma write_sectors_eq:
  "write_sectors g d i hi buf =
     (\<lambda>k. if i \<le> k \<and> k < hi \<and> 0 \<le> k \<and> k < TOTAL_SECTORS g then buf else d k)"
proof (induction g d i hi buf rule: write_sectors.induct)
  case (1 g d i hi buf)
  show ?case
  proof (cases "i < hi")
    case False
    then show ?thesis
      by (subst write_sectors.simps) (auto simp: fun_eq_iff)
  next
    case True
    have "write_sectors g d i hi buf =
        write_sectors g (Disk_Write_unchecked g d i buf) (i + 1) hi buf"
      using True by (subst write_sectors.simps) simp
    also have "\<dots> = (\<lambda>k. if i + 1 \<le> k \<and> k < hi \<and> 0 \<le> k \<and> k < TOTAL_SECTORS g then buf
                       else Disk_Write_unchecked g d i buf k)"
      by (rule "1.IH" [OF True])
    also have "\<dots> = (\<lambda>k. if i \<le> k \<and> k < hi \<and> 0 \<le> k \<and> k < TOTAL_SECTORS g then buf else d k)"
      using True by (auto simp: fun_eq_iff Disk_Write_unchecked_def Disk_Write_def)
    finally show ?thesis .
  qed
qed

lemma bitmap_init_one_bit:
  assumes "0 < SECTOR_SIZE g" and "0 < num" and "0 \<le> start" and "start + num < TOTAL_SECTORS g"
  shows "\<exists>d'. bitmap_init g start num 1 d = Inr d'
           \<and> d' (start + num) = 0x80 # replicate (nat (SECTOR_SIZE g - 1)) 0"
  using assms
  by (simp add: bitmap_init_def Let_def cdiv_def cmod_def signum_def bits_tbl_def write_sectors_eq
        Disk_Write_unchecked_def Disk_Write_def)

lemma bitmap_init_inode_bitmap:
  "bitmap_init geom 1 1 1 d =
     Inr (d(1 := 0x80 # replicate 511 0, 2 := 0x80 # replicate 511 0))"
  by (simp add: bitmap_init_def Let_def layout_geom c_arith bits_tbl_def
      write_sectors.simps disk_defs)

lemma bitmap_init_sector_bitmap:
  "bitmap_init geom 2 3 255 d =
     Inr (d(2 := replicate 31 0xff @ [0xfe] @ replicate 480 0,
            3 := replicate 31 0 @ [0xfe] @ replicate 480 0,
            4 := replicate 31 0 @ [0xfe] @ replicate 480 0))"
  by (simp add: bitmap_init_def Let_def layout_geom c_arith bits_tbl_def
      write_sectors.simps disk_defs)

lemma format_disk_geom: "format_disk geom d = Inr (True, fresh_image d)"
proof -
  have "format_inode_table geom 0 d' =
     (True, \<lambda>k. if 5 \<le> k \<and> k < 255
                 then (if k = 5 then put_int (put_int (replicate 512 0) 0 0) 4 1
                       else replicate 512 0)
                 else d' k)" for d'
    using format_inode_table_eq [of geom 0 d'] by (simp add: layout_geom cong: if_cong)
  then show ?thesis
    by (simp add: format_disk_def bitmap_init_inode_bitmap bitmap_init_sector_bitmap
          layout_geom INODE_BITMAP_START_SECTOR_def SUPERBLOCK_START_SECTOR_def Disk_Write_def
          fresh_image_def fun_eq_iff put_int_def put_bytes_def int_bytes_def OS_MAGIC_def
          inode_bytes_def rep_norm)
qed

lemma FS_Boot_format:
  "FS_Boot geom (h\<lparr>init_ok := True, load := Cannot_Open, save_ok := True\<rparr>) s =
     Inr (0, s\<lparr>disk := fresh_image (init_disk h), open_files := no_open_files\<rparr>)"
  by (simp add: FS_Boot_def format_disk_geom)

text \<open>
  C8. The claim: after \<open>FS_Boot\<close> formats a fresh image, the sector bitmap has the bits
  below \<open>DATABLOCK_START_SECTOR\<close> set and all the others clear, the inode bitmap has only
  bit 0 set, and no write goes outside a bitmap's own sectors. On the concrete geometry
  the inode bitmap is sector 1 and the sector bitmap sectors 2 to 4. The initialisation
  of the inode bitmap also writes sector 2, which belongs to the sector bitmap: with no
  whole byte of ones the count of zero sectors is not reduced by one
  (\<open>bitmap_init_one_bit\<close>, for every geometry). The
  initialisation of the sector bitmap writes the byte \<open>0xfe\<close> of its partial byte, byte
  31, to sectors 3 and 4 as well, because the buffer is cleared only before that byte:
  after the format the bits 4344 to 4350 and 8440 to 8446 of the sector bitmap are set,
  although the data blocks start at sector 255.
\<close>

theorem bitmap_init_stray_writes:
  "bitmap_init geom INODE_BITMAP_START_SECTOR (INODE_BITMAP_SECTORS geom) 1 d =
     Inr (d(1 := 0x80 # replicate 511 0, 2 := 0x80 # replicate 511 0))
   \<and> FS_Boot geom (h\<lparr>init_ok := True, load := Cannot_Open, save_ok := True\<rparr>) s =
       Inr (0, s\<lparr>disk := fresh_image (init_disk h), open_files := no_open_files\<rparr>)
   \<and> fresh_image (init_disk h) 3 ! 31 = 0xfe
   \<and> fresh_image (init_disk h) 4 ! 31 = 0xfe
   \<and> isBitSet (fresh_image (init_disk h) 3 ! 31) 0 = 1"
  by (simp add: bitmap_init_inode_bitmap FS_Boot_format layout_geom INODE_BITMAP_START_SECTOR_def
      fresh_image_def nth_append isBitSet_def set_mask_def)

subsection \<open>Allocation\<close>

text \<open>
  C4. The claim: allocation returns the smallest clear bit of \<open>[0, bit_capacity)\<close> and
  fails exactly when all of them are set, so that every one of the \<open>MAX_FILES\<close> inode
  bits can be reached. \<open>add_inode\<close> passes \<open>INODE_BITMAP_SIZE\<close>, the number of bytes of
  the bitmap, where \<open>bitmap_first_unused\<close> expects its number of bits: with 1000 inodes
  the scan covers the bits 0 to 124. In an inode bitmap whose first 125 bits are set
  and whose other bits, 125 to 999, are clear, \<open>add_inode\<close> finds no inode.
\<close>

theorem add_inode_scans_bytes_as_bits:
  "add_inode geom 0 0 ''x''
     (s\<lparr>disk := (disk s)(1 := replicate 15 0xff @ [0xf8] @ replicate 496 0)\<rparr>) =
   Inr (- 1, s\<lparr>disk := (disk s)(1 := replicate 15 0xff @ [0xf8] @ replicate 496 0)\<rparr>)"
  by (simp add: add_inode_def layout_geom INODE_BITMAP_START_SECTOR_def bitmap_defs c_arith
      Let_def disk_defs nth_append)

subsection \<open>Removal\<close>

lemma fresh_image_sectors:
  "fresh_image d 0 = [0xef, 0xbe, 0xad, 0xde] @ replicate 508 0"
  "fresh_image d 1 = 0x80 # replicate 511 0"
  "fresh_image d 2 = replicate 31 0xff @ [0xfe] @ replicate 480 0"
  "fresh_image d 3 = replicate 31 0 @ [0xfe] @ replicate 480 0"
  "fresh_image d 4 = replicate 31 0 @ [0xfe] @ replicate 480 0"
  "fresh_image d 5 = inode_bytes 0 1 0 @ replicate 384 0"
  by (simp_all add: fresh_image_def)

lemma Dir_Unlink_root: "Dir_Unlink g ''/'' s = Inr (- 1, s\<lparr>osErrno := E_ROOT_DIR\<rparr>)"
  by (simp add: Dir_Unlink_def follow_path_def Let_def follow_path_loop.simps strsep_def
        MAX_PATH_def split: option.splits)

lemma follow_path_fresh_nope:
  "follow_path geom (fresh_image d) ''/nope'' = Inr (0, Some (- 1), Some ''nope'')"
  by (simp add: follow_path_def Let_def follow_path_loop.simps strsep_def MAX_PATH_def
        layout_geom disk_defs fresh_image_sectors illegal_filename_def legal_char_def
        find_child_inode_def inode_ptr_def c_arith buf_defs find_child_loop.simps)

lemma remove_inode_fresh_nope:
  "remove_inode geom 1 0 (- 1) (s\<lparr>disk := fresh_image d\<rparr>) =
     Inr (- 3, s\<lparr>disk := fresh_image d\<rparr>)"
  by (simp add: remove_inode_def Let_def layout_geom inode_sector_of_def inode_ptr_def c_arith
        disk_defs fresh_image_sectors buf_defs)

text \<open>
  For every geometry and state: when \<open>follow_path\<close> resolves the parent, \<open>Dir_Unlink\<close>
  does not report NO\_SUCH\_DIR, whether or not the last component exists.
\<close>

lemma bitmap_reset_osErrno:
  "bitmap_reset g start num ibit s = Inr (r, s') \<Longrightarrow>
   osErrno s' = osErrno s \<or> osErrno s' = E_GENERAL"
  by (auto simp: bitmap_reset_def Let_def split: if_splits option.splits)

lemma reclaim_sectors_osErrno:
  "reclaim_sectors g inode_buffer child i s = Inr s' \<Longrightarrow>
   osErrno s' = osErrno s \<or> osErrno s' = E_GENERAL"
proof (induction g inode_buffer child i s rule: reclaim_sectors.induct)
  case (1 g inode_buffer child i s)
  show ?case
  proof (cases "i < MAX_SECTORS_PER_FILE g")
    case False
    with "1.prems" show ?thesis
      by (subst (asm) reclaim_sectors.simps) simp
  next
    case True
    show ?thesis
    proof (cases "inode_data inode_buffer child i > 0")
      case False
      with True "1.prems" have "reclaim_sectors g inode_buffer child (i + 1) s = Inr s'"
        by (subst (asm) reclaim_sectors.simps) simp
      then show ?thesis by (rule "1.IH"(2) [OF True False])
    next
      case pos: True
      from True pos "1.prems" obtain r s1 where
        br: "bitmap_reset g (SECTOR_BITMAP_START_SECTOR g) (SECTOR_BITMAP_SECTORS g)
               (inode_data inode_buffer child i) s = Inr (r, s1)"
        and rest: "reclaim_sectors g inode_buffer child (i + 1) s1 = Inr s'"
        by (subst (asm) reclaim_sectors.simps) (auto split: sum.splits)
      have "osErrno s1 = osErrno s \<or> osErrno s1 = E_GENERAL"
        using br by (rule bitmap_reset_osErrno)
      moreover have "osErrno s' = osErrno s1 \<or> osErrno s' = E_GENERAL"
        using "1.IH"(1) [OF True pos br refl rest] .
      ultimately show ?thesis by auto
    qed
  qed
qed

lemma remove_dirent_osErrno:
  "remove_dirent g parent_inode child_inode s = Inr (r, s') \<Longrightarrow> osErrno s' = osErrno s"
  by (auto simp: remove_dirent_def Let_def split: if_splits option.splits sum.splits prod.splits)

lemma remove_inode_osErrno:
  assumes "remove_inode g type parent_inode child_inode s = Inr (r, s')"
  shows "osErrno s' = osErrno s \<or> osErrno s' = E_GENERAL"
proof -
  have a: "osErrno s1 = osErrno s \<or> osErrno s1 = E_GENERAL"
    if "reclaim_sectors g ib child 0 s = Inr s1" for ib child s1
    using that by (rule reclaim_sectors_osErrno)
  have b: "osErrno s3 = osErrno s1 \<or> osErrno s3 = E_GENERAL"
    if "bitmap_reset g INODE_BITMAP_START_SECTOR (INODE_BITMAP_SECTORS g) child_inode s1 = Inr (x, s3)"
    for s1 x s3
    using that by (rule bitmap_reset_osErrno)
  have c: "osErrno s4 = osErrno s3" if "remove_dirent g parent_inode child_inode s3 = Inr (r, s4)"
    for s3 s4
    using that by (rule remove_dirent_osErrno)
  from assms show ?thesis
    by (auto simp: remove_inode_def Let_def split: if_splits option.splits sum.splits prod.splits
          dest!: a b c)
qed

lemma Dir_Unlink_resolved_parent:
  assumes "follow_path g (disk s) path = Inr (parent_inode, child, path_name)"
    and "0 \<le> parent_inode" and "osErrno s \<noteq> E_NO_SUCH_DIR"
    and "Dir_Unlink g path s = Inr (r, s')"
  shows "osErrno s' \<noteq> E_NO_SUCH_DIR"
proof -
  have "osErrno s1 \<noteq> E_NO_SUCH_DIR"
    if "remove_inode g 1 parent_inode c s = Inr (x, s1)" for c x s1
    using remove_inode_osErrno [OF that] assms(3) by auto
  with assms show ?thesis
    by (auto simp: Dir_Unlink_def split: if_splits option.splits sum.splits prod.splits)
qed

text \<open>
  C5. The claim: \<open>Dir_Unlink("/")\<close> fails with ROOT\_DIR, and on a path whose parent
  chain resolves but whose last component does not exist, such as \<open>/nope\<close> on a fresh
  image, \<open>Dir_Unlink\<close> fails with NO\_SUCH\_DIR and leaves the file system unchanged.
  The first part holds for every geometry and state. For the second, \<open>Dir_Unlink\<close>
  tests only the parent returned by \<open>follow_path\<close>, which is the root, and passes the
  child \<open>-1\<close> to \<open>remove_inode\<close>; \<open>File_Unlink\<close> tests the child first. With the
  conversions to \<open>size_t\<close>, \<open>remove_inode\<close> reads the last sector of the sector bitmap as
  the inode sector of the child, finds type 0 where it expects a directory and returns
  \<open>-3\<close>, which \<open>Dir_Unlink\<close> reports as DIR\_NOT\_EMPTY. The disk is unchanged.
  Whatever \<open>remove_inode\<close> returns, the error is not NO\_SUCH\_DIR
  (\<open>Dir_Unlink_resolved_parent\<close>).
\<close>

theorem Dir_Unlink_missing_name:
  "Dir_Unlink g ''/'' s = Inr (- 1, s\<lparr>osErrno := E_ROOT_DIR\<rparr>)
   \<and> Dir_Unlink geom ''/nope'' (s\<lparr>disk := fresh_image d\<rparr>) =
       Inr (- 1, s\<lparr>disk := fresh_image d, osErrno := E_DIR_NOT_EMPTY\<rparr>)"
  by (simp add: Dir_Unlink_root) (simp add: Dir_Unlink_def follow_path_fresh_nope
        remove_inode_fresh_nope)

lemma image_ab_sectors:
  "image_ab d 0 = [0xef, 0xbe, 0xad, 0xde] @ replicate 508 0"
  "image_ab d 1 = 0xe0 # replicate 511 0"
  "image_ab d 2 = replicate 32 0xff @ replicate 480 0"
  "image_ab d 5 = inode_bytes 2 1 255 @ replicate 384 0"
  "image_ab d 255 = dirent_bytes ''a'' 1 @ dirent_bytes ''b'' 2 @ replicate 472 0"
  by (simp_all add: image_ab_def fresh_image_def)

lemma image_ab_fields:
  "inode_type (inode_bytes 2 1 255 @ replicate 384 0) 0 = 1"
  "inode_size (inode_bytes 2 1 255 @ replicate 384 0) 0 = 2"
  "inode_data (inode_bytes 2 1 255 @ replicate 384 0) 0 0 = 255"
  "inode_type (inode_bytes 2 1 255 @ replicate 384 0) 128 = 0"
  "inode_size (inode_bytes 2 1 255 @ replicate 384 0) 128 = 0"
  "inode_type (inode_bytes 2 1 255 @ replicate 384 0) 256 = 0"
  "inode_size (inode_bytes 2 1 255 @ replicate 384 0) 256 = 0"
  by (simp_all add: buf_defs c_arith)

lemma image_ab_reclaim:
  "reclaim_sectors geom (inode_bytes 2 1 255 @ replicate 384 0) 128 0 s = Inr s"
  by (simp add: reclaim_sectors.simps layout_geom buf_defs c_arith)

lemma image_ab_zero:
  "zero_bytes (inode_bytes 2 1 255 @ replicate 384 0) 128 128 =
     inode_bytes 2 1 255 @ replicate 384 0"
  by (simp add: buf_defs rep_norm)

lemma image_ab_find_entry:
  "find_entry geom (dirent_bytes ''a'' 1 @ dirent_bytes ''b'' 2 @ replicate 472 0) 1 0 = Some 0"
  by (simp add: find_entry.simps layout_geom buf_defs c_arith)

lemma image_ab_swap:
  "put_int
     (put_bytes (dirent_bytes ''a'' 1 @ dirent_bytes ''b'' 2 @ replicate 472 0) 0
        (strncpy_bytes
           (dirent_fname (dirent_bytes ''a'' 1 @ dirent_bytes ''b'' 2 @ replicate 472 0) 20) 16))
     16 (dirent_inode (dirent_bytes ''a'' 1 @ dirent_bytes ''b'' 2 @ replicate 472 0) 20) =
   dirent_bytes ''b'' 2 @ dirent_bytes ''b'' 2 @ replicate 472 0"
  by (simp add: buf_defs c_arith rep_norm)

lemma image_ab_size:
  "put_int (inode_bytes 2 1 255 @ replicate 384 0) 0 1 = inode_bytes 1 1 255 @ replicate 384 0"
  by (simp add: buf_defs rep_norm)

text \<open>
  C3. The claim: a successful removal from a parent of size \<open>n\<close> replaces the dirent of
  the child by the dirent of slot \<open>n - 1\<close>, zeroes slot \<open>n - 1\<close> and sets the size to
  \<open>n - 1\<close>. \<open>remove_inode\<close> reads the last dirent into \<open>last_dirent_buffer\<close>, a buffer of
  its own, clears the dirent there with \<open>memset\<close>, and writes only \<open>dirent_buffer\<close>
  back. In the root of \<open>image_ab\<close>, which holds \<open>a\<close> (inode 1) in slot 0 and \<open>b\<close>
  (inode 2) in slot 1, the removal of inode 1 returns 0, copies \<open>b\<close> to slot 0 and makes
  the size 1, and slot 1 still holds \<open>b\<close> with inode 2.
\<close>

theorem remove_inode_keeps_last_slot:
  "remove_inode geom 0 0 1 (s\<lparr>disk := image_ab d\<rparr>) =
     Inr (0, s\<lparr>disk := (image_ab d)
       (1 := 0xa0 # replicate 511 0,
        255 := dirent_bytes ''b'' 2 @ dirent_bytes ''b'' 2 @ replicate 472 0,
        5 := inode_bytes 1 1 255 @ replicate 384 0)\<rparr>)"
  by (simp add: remove_inode_def remove_dirent_def swap_with_last_def
      swap_loop.simps [of _ _ _ _ _ _ _ 0] Let_def layout_geom INODE_BITMAP_START_SECTOR_def
      sizeof_dirent_t_def MAX_NAME_def inode_sector_of_def inode_ptr_def c_arith disk_defs
      bitmap_defs image_ab_sectors image_ab_fields image_ab_reclaim image_ab_zero
      image_ab_find_entry image_ab_swap image_ab_size)

subsection \<open>Child lookup\<close>

lemma image_ab_find_entry_b:
  "find_entry geom (dirent_bytes ''a'' 1 @ dirent_bytes ''b'' 2 @ replicate 472 0) 2 0 = Some 1"
  by (simp add: find_entry.simps layout_geom buf_defs c_arith)

lemma image_ab_swap_b:
  "put_int
     (put_bytes (dirent_bytes ''a'' 1 @ dirent_bytes ''b'' 2 @ replicate 472 0) 20
        (strncpy_bytes
           (dirent_fname (dirent_bytes ''a'' 1 @ dirent_bytes ''b'' 2 @ replicate 472 0) 20) 16))
     36 (dirent_inode (dirent_bytes ''a'' 1 @ dirent_bytes ''b'' 2 @ replicate 472 0) 20) =
   dirent_bytes ''a'' 1 @ dirent_bytes ''b'' 2 @ replicate 472 0"
  by (simp add: buf_defs c_arith rep_norm)

lemma image_ab_reclaim_b:
  "reclaim_sectors geom (inode_bytes 2 1 255 @ replicate 384 0) 256 0 s = Inr s"
  by (simp add: reclaim_sectors.simps layout_geom buf_defs c_arith)

lemma image_ab_zero_b:
  "zero_bytes (inode_bytes 2 1 255 @ replicate 384 0) 256 128 =
     inode_bytes 2 1 255 @ replicate 384 0"
  by (simp add: buf_defs rep_norm)

lemma remove_inode_image_ab_b:
  "remove_inode geom 0 0 2 (s\<lparr>disk := image_ab d\<rparr>) = Inr (0, s\<lparr>disk := image_a_stale d\<rparr>)"
  by (simp add: remove_inode_def remove_dirent_def swap_with_last_def
      swap_loop.simps [of _ _ _ _ _ _ _ 0] Let_def layout_geom INODE_BITMAP_START_SECTOR_def
      sizeof_dirent_t_def MAX_NAME_def inode_sector_of_def inode_ptr_def c_arith disk_defs
      bitmap_defs image_ab_sectors image_ab_fields image_ab_reclaim_b image_ab_zero_b
      image_ab_find_entry_b image_ab_swap_b image_ab_size image_a_stale_def)

lemma image_a_sectors:
  "image_a_stale d 5 = inode_bytes 1 1 255 @ replicate 384 0"
  "image_a_stale d 255 = dirent_bytes ''a'' 1 @ dirent_bytes ''b'' 2 @ replicate 472 0"
  "image_a_clean d 5 = inode_bytes 1 1 255 @ replicate 384 0"
  "image_a_clean d 255 = dirent_bytes ''a'' 1 @ replicate 492 0"
  by (simp_all add: image_a_stale_def image_a_clean_def)

lemma image_a_fields:
  "inode_type (inode_bytes 1 1 255 @ replicate 384 0) 0 = 1"
  "inode_size (inode_bytes 1 1 255 @ replicate 384 0) 0 = 1"
  "inode_data (inode_bytes 1 1 255 @ replicate 384 0) 0 0 = 255"
  by (simp_all add: buf_defs c_arith)

lemma scan_dirents_stale:
  "scan_dirents geom (dirent_bytes ''a'' 1 @ dirent_bytes ''b'' 2 @ replicate 472 0) ''b'' 1 0
     = Some 2"
  by (simp add: scan_dirents.simps layout_geom buf_defs c_arith)

lemma scan_dirents_clean:
  "scan_dirents geom (dirent_bytes ''a'' 1 @ replicate 492 0) ''b'' 1 0 = None"
  by (simp add: scan_dirents.simps layout_geom buf_defs c_arith)

text \<open>
  C9. The claim: the lookup of a name in a directory of size \<open>n\<close> depends only on the
  dirent slots \<open>[0, n)\<close>; two disks that agree on these slots and on the inode table give
  the same result. The loop of \<open>find_child_inode\<close> leaves a sector with
  \<open>if (i > nentries) break\<close>, so slot \<open>n\<close> is compared too. \<open>image_a_stale\<close> and
  \<open>image_a_clean\<close> differ only in slot 1 of the dirent sector of the root, whose size is
  1; the lookup of \<open>b\<close> in the root returns inode 2 on the first and \<open>-1\<close> on the second.
\<close>

theorem find_child_inode_reads_slot_n:
  "find_child_inode geom (image_a_stale d) 0 ''b'' 5 (image_a_stale d 5) =
     Inr (2, 5, image_a_stale d 5)
   \<and> find_child_inode geom (image_a_clean d) 0 ''b'' 5 (image_a_clean d 5) =
       Inr (- 1, 5, image_a_clean d 5)
   \<and> image_a_clean d = (image_a_stale d)(255 := image_a_clean d 255)
   \<and> take 20 (image_a_clean d 255) = take 20 (image_a_stale d 255)
   \<and> inode_size (image_a_stale d 5) 0 = 1"
proof (intro conjI)
  show "find_child_inode geom (image_a_stale d) 0 ''b'' 5 (image_a_stale d 5) =
      Inr (2, 5, image_a_stale d 5)"
    by (simp add: find_child_inode_def inode_ptr_def inode_sector_of_def layout_geom c_arith
        find_child_loop.simps [of _ _ _ _ _ 1] disk_defs image_a_sectors image_a_fields
        scan_dirents_stale)
  show "find_child_inode geom (image_a_clean d) 0 ''b'' 5 (image_a_clean d 5) =
      Inr (- 1, 5, image_a_clean d 5)"
    by (simp add: find_child_inode_def inode_ptr_def inode_sector_of_def layout_geom c_arith
        find_child_loop.simps [of _ _ _ _ _ 1] find_child_loop.simps [of _ _ _ _ _ "- 24"]
        disk_defs image_a_sectors image_a_fields scan_dirents_clean)
  show "image_a_clean d = (image_a_stale d)(255 := image_a_clean d 255)"
    by (simp add: image_a_clean_def)
  show "take 20 (image_a_clean d 255) = take 20 (image_a_stale d 255)"
    by (simp add: image_a_sectors buf_defs)
  show "inode_size (image_a_stale d 5) 0 = 1"
    by (simp add: image_a_sectors image_a_fields)
qed

subsection \<open>Reading and writing\<close>

lemma image_hello_sectors:
  "image_hello d 5 = inode_bytes 1 1 255 @ inode_bytes 0 0 256 @ replicate 256 0"
  "image_hello d 256 = str_bytes ''HELLO'' @ replicate 507 0"
  by (simp_all add: image_hello_def)

lemma image_hello_fields:
  "inode_data (inode_bytes 1 1 255 @ inode_bytes 0 0 256 @ replicate 256 0) 128 0 = 256"
  by (simp add: buf_defs c_arith)

lemma is_file_open_free_slot:
  "is_file_open (no_open_files(0 := f)) 0 = 1"
proof -
  have "is_file_open (no_open_files(0 := f)) (inode ((no_open_files(0 := f)) 1)) = 1"
    by (rule is_file_open_self) (simp_all add: MAX_OPEN_FILES_def)
  then show ?thesis by (simp add: no_open_files_def)
qed

text \<open>
  C1. The claim: \<open>File_Read(fd, buf, n)\<close> returns at most \<open>min(n, size - pos)\<close> bytes,
  advances \<open>pos\<close> by the number of bytes returned, and returns 0 at end of file.
  The source computes \<open>to_read\<close> from \<open>n\<close> and the position in the sector only, not
  from the size; it clamps \<open>pos\<close> to the size afterwards and returns \<open>to_read\<close>. On the
  file of \<open>image_hello\<close>, open on descriptor 0 with size 5 and position 0, a read of 100
  bytes returns 100, copies the five bytes of the file and the 95 bytes that follow
  them in the sector, and advances \<open>pos\<close> by 5.
\<close>

theorem File_Read_past_end_of_file:
  "File_Read geom stack_buf 0 100
     (s\<lparr>disk := image_hello d,
        open_files := no_open_files(0 := \<lparr>inode = 1, size_f = 5, pos = 0\<rparr>)\<rparr>) =
   Inr (100, str_bytes ''HELLO'' @ replicate 95 0,
     s\<lparr>disk := image_hello d,
       open_files := no_open_files(0 := \<lparr>inode = 1, size_f = 5, pos = 5\<rparr>)\<rparr>)"
  by (simp add: File_Read_def is_file_open_free_slot MAX_OPEN_FILES_def Let_def
      inode_sector_of_def inode_ptr_def layout_geom c_arith disk_defs image_hello_sectors
      image_hello_fields str_bytes_def)

text \<open>The end-of-file part of the claim, for a descriptor that passes the validation.\<close>

lemma File_Read_at_end_of_file:
  "is_file_open (open_files s) fd \<noteq> 0 \<Longrightarrow> 0 \<le> fd \<Longrightarrow> fd < MAX_OPEN_FILES \<Longrightarrow>
   pos (open_files s fd) = size_f (open_files s fd) \<Longrightarrow>
   File_Read g stack_buf fd n s = Inr (0, [], s)"
  by (simp add: File_Read_def Let_def)

lemma is_file_open_none:
  "is_file_open (no_open_files(0 := \<lparr>inode = 2, size_f = a, pos = b\<rparr>,
       1 := \<lparr>inode = 2, size_f = a', pos = b'\<rparr>)) 1 = 0"
  by (simp add: is_file_open_iff no_open_files_def)

text \<open>
  C7. The claim: for every open descriptor whose position and count give
  \<open>pos + n > MAX_SECTORS_PER_FILE * SECTOR_SIZE\<close>, \<open>File_Write\<close> fails with
  FILE\_TOO\_BIG and changes nothing. \<open>File_Write\<close> first calls \<open>is_file_open(fd)\<close>, which
  looks for an open file whose inode number is \<open>fd\<close>; \<open>File_Seek\<close> passes the inode of
  the slot and \<open>File_Close\<close> tests the slot. With the file of inode 2 open on the
  descriptors 0 and 1 and no other file open, no entry has inode 1, and a write of
  \<open>30 * 512 + 1\<close> bytes on descriptor 1 fails with BAD\_FD.
\<close>

theorem File_Write_too_big_reports_bad_fd:
  "File_Write geom 1 buffer (30 * 512 + 1)
     (s\<lparr>open_files := no_open_files(0 := \<lparr>inode = 2, size_f = 0, pos = 0\<rparr>,
                                      1 := \<lparr>inode = 2, size_f = 0, pos = 0\<rparr>)\<rparr>) =
   Inr (- 1,
     s\<lparr>open_files := no_open_files(0 := \<lparr>inode = 2, size_f = 0, pos = 0\<rparr>,
                                     1 := \<lparr>inode = 2, size_f = 0, pos = 0\<rparr>),
       osErrno := E_BAD_FD\<rparr>)"
  by (simp add: File_Write_def is_file_open_none)

text \<open>The check itself, for a descriptor that passes the validation.\<close>

lemma File_Write_too_big:
  "is_file_open (open_files s) fd \<noteq> 0 \<Longrightarrow> 0 \<le> fd \<Longrightarrow> fd < MAX_OPEN_FILES \<Longrightarrow>
   pos (open_files s fd) + n > MAX_SECTORS_PER_FILE g * SECTOR_SIZE g \<Longrightarrow>
   File_Write g fd buffer n s = Inr (- 1, s\<lparr>osErrno := E_FILE_TOO_BIG\<rparr>)"
  by (simp add: File_Write_def Let_def)

subsection \<open>Unlinking an open file\<close>

text \<open>
  C6. When the path resolves to an inode that some entry of the open-file table
  references, \<open>File_Unlink\<close> returns \<open>-1\<close> with FILE\_IN\_USE; the state it returns
  differs from the one it was given in the error slot only, so the disk (the inode, its
  data sectors, both bitmaps, the parent directory) and the open-file table are
  unchanged.
\<close>

theorem File_Unlink_open_file:
  assumes "follow_path g (disk s) file = Inr (parent_inode, Some child_inode, last_fname)"
    and "0 \<le> parent_inode" and "0 \<le> child_inode"
    and "0 \<le> i" and "i < MAX_OPEN_FILES" and "inode (open_files s i) = child_inode"
  shows "File_Unlink g file s = Inr (- 1, s\<lparr>osErrno := E_FILE_IN_USE\<rparr>)"
proof -
  have "\<exists>j. 0 \<le> j \<and> j < MAX_OPEN_FILES \<and> inode (open_files s j) = child_inode"
    using assms(4-6) by blast
  then have "is_file_open (open_files s) child_inode = 1"
    by (simp add: is_file_open_iff)
  with assms(1-3) show ?thesis
    by (simp add: File_Unlink_def)
qed

lemma scan_dirents_a:
  "scan_dirents geom (dirent_bytes ''a'' 1 @ dirent_bytes ''b'' 2 @ replicate 472 0) ''a'' 2 0
     = Some 1"
  by (simp add: scan_dirents.simps layout_geom buf_defs c_arith)

lemma follow_path_image_ab_a:
  "follow_path geom (image_ab d) ''/a'' = Inr (0, Some 1, Some ''a'')"
  by (simp add: follow_path_def Let_def follow_path_loop.simps strsep_def MAX_PATH_def
        layout_geom disk_defs image_ab_sectors image_ab_fields illegal_filename_def
        legal_char_def MAX_NAME_def find_child_inode_def inode_ptr_def inode_sector_of_def c_arith
        find_child_loop.simps [of _ _ _ _ _ 2] scan_dirents_a)

theorem File_Unlink_open_file_witness:
  "follow_path geom
     (disk \<lparr>disk = image_ab (\<lambda>k. replicate 512 0),
            open_files = no_open_files(0 := \<lparr>inode = 1, size_f = 0, pos = 0\<rparr>),
            osErrno = E_GENERAL\<rparr>) ''/a'' = Inr (0, Some 1, Some ''a'')
   \<and> inode ((no_open_files(0 := \<lparr>inode = 1, size_f = 0, pos = 0\<rparr>)) 0) = 1
   \<and> File_Unlink geom ''/a''
       \<lparr>disk = image_ab (\<lambda>k. replicate 512 0),
        open_files = no_open_files(0 := \<lparr>inode = 1, size_f = 0, pos = 0\<rparr>),
        osErrno = E_GENERAL\<rparr> =
     Inr (- 1,
       \<lparr>disk = image_ab (\<lambda>k. replicate 512 0),
        open_files = no_open_files(0 := \<lparr>inode = 1, size_f = 0, pos = 0\<rparr>),
        osErrno = E_FILE_IN_USE\<rparr>)"
proof -
  let ?s = "\<lparr>disk = image_ab (\<lambda>k. replicate 512 0),
        open_files = no_open_files(0 := \<lparr>inode = 1, size_f = 0, pos = 0\<rparr>),
        osErrno = E_GENERAL\<rparr>"
  have f: "follow_path geom (disk ?s) ''/a'' = Inr (0, Some 1, Some ''a'')"
    by (simp add: follow_path_image_ab_a)
  have "File_Unlink geom ''/a'' ?s = Inr (- 1, ?s\<lparr>osErrno := E_FILE_IN_USE\<rparr>)"
    by (rule File_Unlink_open_file [OF f, of 0]) (simp_all add: MAX_OPEN_FILES_def)
  with f show ?thesis by simp
qed

subsection \<open>The concrete states are reached from a formatted image\<close>

text \<open>
  The states used above are the ones the operations themselves produce: \<open>image_ab\<close>
  after the format and the creation of \<open>/a\<close> and \<open>/b\<close>; the table with two descriptors
  on inode 2 after two calls of \<open>File_Open\<close>; \<open>image_a_stale\<close> after \<open>File_Unlink\<close> of
  \<open>/b\<close>, after which \<open>/b\<close> cannot be created again; and the state of \<open>image_hello\<close>
  with descriptor 0 at position 0 after the creation of \<open>/hello.txt\<close>, \<open>File_Open\<close>,
  the write of five bytes and \<open>File_Seek\<close> to 0.
\<close>

lemma follow_path_fresh_a:
  "follow_path geom (fresh_image d) ''/a'' = Inr (0, Some (- 1), Some ''a'')"
  by (simp add: follow_path_def Let_def follow_path_loop.simps strsep_def MAX_PATH_def
        layout_geom disk_defs fresh_image_sectors illegal_filename_def legal_char_def
        find_child_inode_def inode_ptr_def c_arith buf_defs find_child_loop.simps)

lemma bitmap_first_unused_inode_fresh:
  "bitmap_first_unused geom 1 1 125 (s\<lparr>disk := fresh_image d\<rparr>) =
     (1, s\<lparr>disk := (fresh_image d)(1 := 0xc0 # replicate 511 0)\<rparr>)"
  by (simp add: bitmap_defs layout_geom c_arith Let_def disk_defs fresh_image_sectors)

lemma bitmap_first_unused_sector_255:
  "disk s 2 = replicate 31 0xff @ [0xfe] @ replicate 480 0 \<Longrightarrow>
   bitmap_first_unused geom 2 3 1250 s =
     (255, s\<lparr>disk := (disk s)(2 := replicate 32 0xff @ replicate 480 0)\<rparr>)"
  by (simp add: bitmap_defs layout_geom c_arith Let_def disk_defs nth_append list_update_append rep_norm)

lemma fresh_image_fields:
  "inode_type (inode_bytes 0 1 0 @ replicate 384 0) 0 = 1"
  "inode_size (inode_bytes 0 1 0 @ replicate 384 0) 0 = 0"
  by (simp_all add: buf_defs c_arith)

lemma fresh_image_child:
  "put_int (zero_bytes (inode_bytes 0 1 0 @ replicate 384 0) 128 128) 132 0 =
     inode_bytes 0 1 0 @ replicate 384 0"
  by (simp add: buf_defs rep_norm)

lemma fresh_image_data:
  "put_int (inode_bytes 0 1 0 @ replicate 384 0) 8 255 = inode_bytes 0 1 255 @ replicate 384 0"
  by (simp add: buf_defs rep_norm)

lemma root_data_fields:
  "inode_data (inode_bytes 0 1 255 @ replicate 384 0) 0 0 = 255"
  by (simp_all add: buf_defs c_arith)

lemma dirent_a:
  "put_int (put_bytes (replicate 512 0) 0 (strncpy_bytes (str_bytes ''a'') 16)) 16 1 =
     dirent_bytes ''a'' 1 @ replicate 492 0"
  by (simp add: buf_defs rep_norm)

lemma root_size_one:
  "put_int (inode_bytes 0 1 255 @ replicate 384 0) 0 1 = inode_bytes 1 1 255 @ replicate 384 0"
  by (simp add: buf_defs rep_norm)

lemma File_Create_a:
  "File_Create geom ''/a'' (s\<lparr>disk := fresh_image d\<rparr>) = Inr (0, s\<lparr>disk := image_a d\<rparr>)"
  by (simp add: File_Create_def create_file_or_directory_def follow_path_fresh_a add_inode_def
       add_dirent_def dirent_sector_def
       layout_geom INODE_BITMAP_START_SECTOR_def bitmap_first_unused_inode_fresh bitmap_first_unused_sector_255
       inode_sector_of_def inode_ptr_def c_arith Let_def disk_defs fresh_image_sectors
       fresh_image_fields fresh_image_child fresh_image_data root_data_fields dirent_a root_size_one MAX_NAME_def sizeof_dirent_t_def
       image_a_def)

lemma image_a_sectors_created:
  "image_a d 1 = 0xc0 # replicate 511 0"
  "image_a d 5 = inode_bytes 1 1 255 @ replicate 384 0"
  "image_a d 255 = dirent_bytes ''a'' 1 @ replicate 492 0"
  by (simp_all add: image_a_def)

lemma scan_dirents_a_b:
  "scan_dirents geom (dirent_bytes ''a'' 1 @ replicate 492 0) ''b'' 1 0 = None"
  by (simp add: scan_dirents.simps layout_geom buf_defs c_arith)

lemma follow_path_a_b:
  "follow_path geom (image_a d) ''/b'' = Inr (0, Some (- 1), Some ''b'')"
  by (simp add: follow_path_def Let_def follow_path_loop.simps strsep_def MAX_PATH_def
        layout_geom disk_defs image_a_sectors_created image_a_fields illegal_filename_def
        legal_char_def MAX_NAME_def find_child_inode_def inode_ptr_def inode_sector_of_def c_arith
        find_child_loop.simps [of _ _ _ _ _ 1] find_child_loop.simps [of _ _ _ _ _ "- 24"] scan_dirents_a_b)

lemma bitmap_first_unused_inode_a:
  "bitmap_first_unused geom 1 1 125 (s\<lparr>disk := image_a d\<rparr>) =
     (2, s\<lparr>disk := (image_a d)(1 := 0xe0 # replicate 511 0)\<rparr>)"
  by (simp add: bitmap_defs layout_geom c_arith Let_def disk_defs image_a_sectors_created)

lemma image_a_child:
  "put_int (zero_bytes (inode_bytes 1 1 255 @ replicate 384 0) 256 128) 260 0 =
     inode_bytes 1 1 255 @ replicate 384 0"
  by (simp add: buf_defs rep_norm)

lemma dirent_b:
  "put_int (put_bytes (dirent_bytes ''a'' 1 @ replicate 492 0) 20
       (strncpy_bytes (str_bytes ''b'') 16)) 36 2 =
     dirent_bytes ''a'' 1 @ dirent_bytes ''b'' 2 @ replicate 472 0"
  by (simp add: buf_defs rep_norm)

lemma root_size_two:
  "put_int (inode_bytes 1 1 255 @ replicate 384 0) 0 2 = inode_bytes 2 1 255 @ replicate 384 0"
  by (simp add: buf_defs rep_norm)

lemma File_Create_b:
  "File_Create geom ''/b'' (s\<lparr>disk := image_a d\<rparr>) = Inr (0, s\<lparr>disk := image_ab d\<rparr>)"
  apply (simp add: File_Create_def create_file_or_directory_def follow_path_a_b add_inode_def
       add_dirent_def dirent_sector_def
       layout_geom INODE_BITMAP_START_SECTOR_def bitmap_first_unused_inode_a
       inode_sector_of_def inode_ptr_def c_arith Let_def disk_defs image_a_sectors_created
       image_a_fields image_a_child dirent_b root_size_two MAX_NAME_def sizeof_dirent_t_def)
  apply (simp add: image_ab_def image_a_def fun_eq_iff)
  done

lemma follow_path_fresh_hello:
  "follow_path geom (fresh_image d) ''/hello.txt'' = Inr (0, Some (- 1), Some ''hello.txt'')"
  by (simp add: follow_path_def Let_def follow_path_loop.simps strsep_def MAX_PATH_def
        layout_geom disk_defs fresh_image_sectors illegal_filename_def legal_char_def
        find_child_inode_def inode_ptr_def c_arith buf_defs find_child_loop.simps)

lemma dirent_hello:
  "put_int (put_bytes (replicate 512 0) 0 (strncpy_bytes (str_bytes ''hello.txt'') 16)) 16 1 =
     dirent_bytes ''hello.txt'' 1 @ replicate 492 0"
  by (simp add: buf_defs rep_norm)

lemma File_Create_hello:
  "File_Create geom ''/hello.txt'' (s\<lparr>disk := fresh_image d\<rparr>) = Inr (0, s\<lparr>disk := image_h d\<rparr>)"
  by (simp add: File_Create_def create_file_or_directory_def follow_path_fresh_hello add_inode_def
       add_dirent_def dirent_sector_def
       layout_geom INODE_BITMAP_START_SECTOR_def bitmap_first_unused_inode_fresh bitmap_first_unused_sector_255
       inode_sector_of_def inode_ptr_def c_arith Let_def disk_defs fresh_image_sectors
       fresh_image_fields fresh_image_child fresh_image_data root_data_fields dirent_hello root_size_one MAX_NAME_def sizeof_dirent_t_def
       image_h_def)

lemma image_h_sectors:
  "image_h d 2 = replicate 32 0xff @ replicate 480 0"
  "image_h d 5 = inode_bytes 1 1 255 @ replicate 384 0"
  "image_h d 255 = dirent_bytes ''hello.txt'' 1 @ replicate 492 0"
  "image_h d 256 = d 256"
  by (simp_all add: image_h_def fresh_image_def)

lemma scan_dirents_hello:
  "scan_dirents geom (dirent_bytes ''hello.txt'' 1 @ replicate 492 0) ''hello.txt'' 1 0 = Some 1"
  by (simp add: scan_dirents.simps layout_geom buf_defs c_arith)

lemma follow_path_h_hello:
  "follow_path geom (image_h d) ''/hello.txt'' = Inr (0, Some 1, Some ''hello.txt'')"
  by (simp add: follow_path_def Let_def follow_path_loop.simps strsep_def MAX_PATH_def
        layout_geom disk_defs image_h_sectors image_a_fields illegal_filename_def
        legal_char_def MAX_NAME_def find_child_inode_def inode_ptr_def inode_sector_of_def c_arith
        find_child_loop.simps [of _ _ _ _ _ 1] scan_dirents_hello)

lemma image_h_fields:
  "inode_type (inode_bytes 1 1 255 @ replicate 384 0) 128 = 0"
  "inode_size (inode_bytes 1 1 255 @ replicate 384 0) 128 = 0"
  by (simp_all add: buf_defs c_arith)

lemma new_file_fd_first: "new_file_fd no_open_files = 0"
  by (simp add: new_file_fd_def new_file_fd_loop.simps MAX_OPEN_FILES_def no_open_files_def)

lemma File_Open_hello:
  "File_Open geom ''/hello.txt'' (s\<lparr>disk := image_h d, open_files := no_open_files\<rparr>) =
     Inr (0, s\<lparr>disk := image_h d,
               open_files := no_open_files(0 := \<lparr>inode = 1, size_f = 0, pos = 0\<rparr>)\<rparr>)"
  by (simp add: File_Open_def new_file_fd_first follow_path_h_hello Let_def inode_sector_of_def inode_ptr_def
      layout_geom c_arith disk_defs image_h_sectors image_h_fields)







lemma File_Seek_hello:
  "File_Seek 0 0 (s\<lparr>open_files := no_open_files(0 := \<lparr>inode = 1, size_f = 5, pos = 5\<rparr>)\<rparr>) =
     Inr (0, s\<lparr>open_files := no_open_files(0 := \<lparr>inode = 1, size_f = 5, pos = 0\<rparr>)\<rparr>)"
proof -
  let ?tbl = "no_open_files(0 := \<lparr>inode = 1, size_f = 5, pos = 5\<rparr>)"
  have "is_file_open ?tbl (inode (?tbl 0)) = 1"
    by (rule is_file_open_self) (simp_all add: MAX_OPEN_FILES_def)
  then have "is_file_open ?tbl 1 = 1" by simp
  then show ?thesis
    by (simp add: File_Seek_def Let_def MAX_OPEN_FILES_def)
qed

lemma scan_dirents_b:
  "scan_dirents geom (dirent_bytes ''a'' 1 @ dirent_bytes ''b'' 2 @ replicate 472 0) ''b'' 2 0
     = Some 2"
  by (simp add: scan_dirents.simps layout_geom buf_defs c_arith)

lemma follow_path_image_ab_b:
  "follow_path geom (image_ab d) ''/b'' = Inr (0, Some 2, Some ''b'')"
  by (simp add: follow_path_def Let_def follow_path_loop.simps strsep_def MAX_PATH_def
        layout_geom disk_defs image_ab_sectors image_ab_fields illegal_filename_def
        legal_char_def MAX_NAME_def find_child_inode_def inode_ptr_def inode_sector_of_def c_arith
        find_child_loop.simps [of _ _ _ _ _ 2] scan_dirents_b)

lemma new_file_fd_second: "new_file_fd (no_open_files(0 := \<lparr>inode = 2, size_f = a, pos = b\<rparr>)) = 1"
  by (simp add: new_file_fd_def new_file_fd_loop.simps MAX_OPEN_FILES_def no_open_files_def)

lemma File_Open_b_twice:
  "File_Open geom ''/b'' (s\<lparr>disk := image_ab d, open_files := no_open_files\<rparr>) =
     Inr (0, s\<lparr>disk := image_ab d,
               open_files := no_open_files(0 := \<lparr>inode = 2, size_f = 0, pos = 0\<rparr>)\<rparr>)"
  "File_Open geom ''/b''
     (s\<lparr>disk := image_ab d,
        open_files := no_open_files(0 := \<lparr>inode = 2, size_f = 0, pos = 0\<rparr>)\<rparr>) =
     Inr (1, s\<lparr>disk := image_ab d,
               open_files := no_open_files(0 := \<lparr>inode = 2, size_f = 0, pos = 0\<rparr>,
                                          1 := \<lparr>inode = 2, size_f = 0, pos = 0\<rparr>)\<rparr>)"
  by (simp_all add: File_Open_def new_file_fd_first new_file_fd_second follow_path_image_ab_b Let_def inode_sector_of_def
      inode_ptr_def layout_geom c_arith disk_defs image_ab_sectors image_ab_fields)

lemma is_file_open_no_open_files: "ino \<noteq> 0 \<Longrightarrow> is_file_open no_open_files ino = 0"
  by (simp add: is_file_open_iff no_open_files_def)

lemma File_Unlink_b:
  "File_Unlink geom ''/b'' (s\<lparr>disk := image_ab d, open_files := no_open_files\<rparr>) =
     Inr (0, s\<lparr>disk := image_a_stale d, open_files := no_open_files\<rparr>)"
proof -
  have e1: "s\<lparr>disk := image_ab d, open_files := no_open_files\<rparr> =
      (s\<lparr>open_files := no_open_files\<rparr>)\<lparr>disk := image_ab d\<rparr>"
    and e2: "s\<lparr>disk := image_a_stale d, open_files := no_open_files\<rparr> =
      (s\<lparr>open_files := no_open_files\<rparr>)\<lparr>disk := image_a_stale d\<rparr>"
    by simp_all
  have "remove_inode geom 0 0 2 (s\<lparr>disk := image_ab d, open_files := no_open_files\<rparr>) =
      Inr (0, s\<lparr>disk := image_a_stale d, open_files := no_open_files\<rparr>)"
    by (simp only: e1 e2 remove_inode_image_ab_b)
  then show ?thesis
    by (simp add: File_Unlink_def follow_path_image_ab_b is_file_open_no_open_files)
qed

lemma follow_path_stale_b:
  "follow_path geom (image_a_stale d) ''/b'' = Inr (0, Some 2, Some ''b'')"
  by (simp add: follow_path_def Let_def follow_path_loop.simps strsep_def MAX_PATH_def
        layout_geom disk_defs image_a_sectors image_a_fields illegal_filename_def
        legal_char_def MAX_NAME_def find_child_inode_def inode_ptr_def inode_sector_of_def c_arith
        find_child_loop.simps [of _ _ _ _ _ 1] scan_dirents_stale)

lemma File_Create_after_unlink:
  "File_Create geom ''/b'' (s\<lparr>disk := image_a_stale d\<rparr>) =
     Inr (- 1, s\<lparr>disk := image_a_stale d, osErrno := E_CREATE\<rparr>)"
  by (simp add: File_Create_def create_file_or_directory_def follow_path_stale_b)

subsection \<open>Validation of the descriptor\<close>











text \<open>
  The states of the examples below: \<open>File_Close(0)\<close> after the two calls of
  \<open>File_Open\<close> leaves the file of inode 2 open on descriptor 1 only; a read on a
  descriptor that no inode number matches then leaves BAD\_FD in the error slot;
  \<open>File_Close(0)\<close> on the file of \<open>image_hello\<close> sets the inode of slot 0 to 0 and
  keeps its size and position.
\<close>

lemma File_Close_first_of_two:
  "File_Close 0
     (s\<lparr>open_files := no_open_files(0 := \<lparr>inode = 2, size_f = 0, pos = 0\<rparr>,
                                      1 := \<lparr>inode = 2, size_f = 0, pos = 0\<rparr>)\<rparr>) =
   Inr (0, s\<lparr>open_files := no_open_files(1 := \<lparr>inode = 2, size_f = 0, pos = 0\<rparr>)\<rparr>)"
proof -
  have "(no_open_files(0 := \<lparr>inode = 2, size_f = 0, pos = 0\<rparr>,
                       1 := \<lparr>inode = 2, size_f = 0, pos = 0\<rparr>))
          (0 := \<lparr>inode = 0, size_f = 0, pos = 0\<rparr>) =
        no_open_files(1 := \<lparr>inode = 2, size_f = 0, pos = 0\<rparr>)"
    by (simp add: fun_eq_iff no_open_files_def)
  then show ?thesis
    by (simp add: File_Close_def MAX_OPEN_FILES_def)
qed

lemma File_Read_unmatched_descriptor:
  "File_Read geom stack_buf 5 n
     (s\<lparr>open_files := no_open_files(1 := \<lparr>inode = 2, size_f = 0, pos = 0\<rparr>)\<rparr>) =
   Inr (- 1, [],
     s\<lparr>open_files := no_open_files(1 := \<lparr>inode = 2, size_f = 0, pos = 0\<rparr>),
       osErrno := E_BAD_FD\<rparr>)"
  by (simp add: File_Read_def is_file_open_iff no_open_files_def)

lemma File_Close_hello:
  "File_Close 0
     (s\<lparr>disk := image_hello d,
        open_files := no_open_files(0 := \<lparr>inode = 1, size_f = 5, pos = 0\<rparr>)\<rparr>) =
   Inr (0, s\<lparr>disk := image_hello d,
             open_files := no_open_files(0 := \<lparr>inode = 0, size_f = 5, pos = 0\<rparr>)\<rparr>)"
  by (simp add: File_Close_def MAX_OPEN_FILES_def)




end
